theory Spec2Isabelle
  imports Complex_Main "HOL-Library.Log_Nat"
begin

section \<open>Python values\<close>

text \<open>
  The tools of \<^verbatim>\<open>src/main.py\<close> traverse loosely typed JSON: the values that
  \<^verbatim>\<open>resp.json()\<close>, the search client and the datastore client hand back.  They are
  modelled by one datatype of Python values.  A \<^verbatim>\<open>dict\<close> is an association list in
  insertion order whose lookup takes the first entry of a key; \<^verbatim>\<open>PImage\<close> is a
  \<^verbatim>\<open>fastmcp.Image\<close> object (built by the product detail lookup only).

  A Python \<^verbatim>\<open>float\<close> is an IEEE binary64 number: a rational (the finite doubles), the
  two infinities, or NaN.  The two zeros are identified: no operation of the program tells
  them apart except through printing.
\<close>

datatype pyfloat = Finite rat | PosInf | NegInf | NaN

datatype pyval =
    PNone
  | PBool bool
  | PInt int
  | PFloat pyfloat
  | PStr string
  | PList "pyval list"
  | PDict "(string \<times> pyval) list"
  | PImage string

text \<open>
  Exceptions, each with what the handlers read from it: \<^verbatim>\<open>str(e)\<close> for all of them,
  and \<^verbatim>\<open>e.response.status_code\<close>, \<^verbatim>\<open>e.response.text\<close> for
  \<^verbatim>\<open>httpx.HTTPStatusError\<close>.  All are subclasses of \<^verbatim>\<open>Exception\<close>.
\<close>

datatype exn =
    HTTPStatusError string nat string
  | RequestError string
  | AttributeError string
  | TypeError string
  | ValueError string
  | OverflowError string
  | KeyError string
  | IndexError string
  | ZeroDivisionError string
  | OtherException string

fun exn_str :: "exn \<Rightarrow> string" where
  "exn_str (HTTPStatusError msg code body) = msg"
| "exn_str (RequestError msg) = msg"
| "exn_str (AttributeError msg) = msg"
| "exn_str (TypeError msg) = msg"
| "exn_str (ValueError msg) = msg"
| "exn_str (OverflowError msg) = msg"
| "exn_str (KeyError msg) = msg"
| "exn_str (IndexError msg) = msg"
| "exn_str (ZeroDivisionError msg) = msg"
| "exn_str (OtherException msg) = msg"

text \<open>Sequencing of computations that may raise: the first exception ends the block.\<close>

definition and_then :: "exn + 'a \<Rightarrow> ('a \<Rightarrow> exn + 'b) \<Rightarrow> exn + 'b" where
  "and_then m f = (case m of Inl e \<Rightarrow> Inl e | Inr v \<Rightarrow> f v)"

text \<open>
  A short-circuit \<^verbatim>\<open>a or b\<close> of two conditions that may raise: \<open>b\<close> is evaluated only
  when \<open>a\<close> is false.
\<close>

definition or_else :: "exn + bool \<Rightarrow> exn + bool \<Rightarrow> exn + bool" where
  "or_else a b = (case a of Inl e \<Rightarrow> Inl e | Inr c \<Rightarrow> if c then Inr True else b)"

text \<open>A string between single quotes, as the error messages of CPython quote names.\<close>

definition quoted :: "string \<Rightarrow> string" where
  "quoted s = [CHR 0x27] @ s @ [CHR 0x27]"

text \<open>\<^verbatim>\<open>type(v).__name__\<close>, as CPython prints it in its error messages.\<close>

fun type_name :: "pyval \<Rightarrow> string" where
  "type_name PNone = ''NoneType''"
| "type_name (PBool b) = ''bool''"
| "type_name (PInt n) = ''int''"
| "type_name (PFloat x) = ''float''"
| "type_name (PStr s) = ''str''"
| "type_name (PList xs) = ''list''"
| "type_name (PDict kvs) = ''dict''"
| "type_name (PImage p) = ''Image''"

text \<open>Truth value testing (\<^verbatim>\<open>if v\<close>, \<^verbatim>\<open>not v\<close>, \<^verbatim>\<open>a or b\<close>).\<close>

fun truthy :: "pyval \<Rightarrow> bool" where
  "truthy PNone = False"
| "truthy (PBool b) = b"
| "truthy (PInt n) = (n \<noteq> 0)"
| "truthy (PFloat x) = (x \<noteq> Finite 0)"
| "truthy (PStr s) = (s \<noteq> [])"
| "truthy (PList xs) = (xs \<noteq> [])"
| "truthy (PDict kvs) = (kvs \<noteq> [])"
| "truthy (PImage p) = True"

definition py_or :: "pyval \<Rightarrow> pyval \<Rightarrow> pyval" where
  "py_or a b = (if truthy a then a else b)"

text \<open>
  \<^verbatim>\<open>v.get(k, d)\<close> and \<^verbatim>\<open>v.get(k)\<close>: a method of \<^verbatim>\<open>dict\<close> only, so on any
  other value the attribute lookup raises \<^verbatim>\<open>AttributeError\<close>.
\<close>

definition no_attribute :: "pyval \<Rightarrow> string \<Rightarrow> exn" where
  "no_attribute v a =
     AttributeError (quoted (type_name v) @ '' object has no attribute '' @ quoted a)"

fun py_get_default :: "pyval \<Rightarrow> string \<Rightarrow> pyval \<Rightarrow> exn + pyval" where
  "py_get_default (PDict kvs) k d = Inr (case map_of kvs k of None \<Rightarrow> d | Some v \<Rightarrow> v)"
| "py_get_default v k d = Inl (no_attribute v ''get'')"

definition py_get :: "pyval \<Rightarrow> string \<Rightarrow> exn + pyval" where
  "py_get v k = py_get_default v k PNone"

text \<open>
  \<^verbatim>\<open>for x in v\<close>: a list yields its elements, a dict its keys, a string its
  characters; anything else is not iterable.
\<close>

fun py_iter :: "pyval \<Rightarrow> exn + pyval list" where
  "py_iter (PList xs) = Inr xs"
| "py_iter (PDict kvs) = Inr (map (\<lambda>kv. PStr (fst kv)) kvs)"
| "py_iter (PStr s) = Inr (map (\<lambda>c. PStr [c]) s)"
| "py_iter v = Inl (TypeError (quoted (type_name v) @ '' object is not iterable''))"

text \<open>\<^verbatim>\<open>len(v)\<close>.\<close>

fun py_len :: "pyval \<Rightarrow> exn + nat" where
  "py_len (PList xs) = Inr (length xs)"
| "py_len (PDict kvs) = Inr (length kvs)"
| "py_len (PStr s) = Inr (length s)"
| "py_len v = Inl (TypeError (''object of type '' @ quoted (type_name v) @ '' has no len()''))"

text \<open>
  \<^verbatim>\<open>v[k]\<close> with a string key and \<^verbatim>\<open>v[0]\<close>.  The program subscripts a value only
  after \<^verbatim>\<open>.get\<close> has found the key or a length check has passed, so the failing cases
  are listed for completeness.
\<close>

fun py_item :: "pyval \<Rightarrow> string \<Rightarrow> exn + pyval" where
  "py_item (PDict kvs) k = (case map_of kvs k of None \<Rightarrow> Inl (KeyError (quoted k)) | Some v \<Rightarrow> Inr v)"
| "py_item (PList xs) k = Inl (TypeError ''list indices must be integers or slices, not str'')"
| "py_item (PStr s) k = Inl (TypeError (''string indices must be integers, not '' @ quoted ''str''))"
| "py_item v k = Inl (TypeError (quoted (type_name v) @ '' object is not subscriptable''))"

fun py_first :: "pyval \<Rightarrow> exn + pyval" where
  "py_first (PList []) = Inl (IndexError ''list index out of range'')"
| "py_first (PList (x # xs)) = Inr x"
| "py_first (PStr []) = Inl (IndexError ''string index out of range'')"
| "py_first (PStr (c # cs)) = Inr (PStr [c])"
| "py_first (PDict kvs) = Inl (KeyError ''0'')"
| "py_first v = Inl (TypeError (quoted (type_name v) @ '' object is not subscriptable''))"

text \<open>\<^verbatim>\<open>isinstance(v, list)\<close> and \<^verbatim>\<open>isinstance(v, dict)\<close>.\<close>

fun is_list :: "pyval \<Rightarrow> bool" where
  "is_list (PList xs) = True"
| "is_list v = False"

fun is_dict :: "pyval \<Rightarrow> bool" where
  "is_dict (PDict kvs) = True"
| "is_dict v = False"

text \<open>
  Decimal printing of a natural number, for the status code that the HTTP error messages
  interpolate.
\<close>

definition digit_char :: "nat \<Rightarrow> char" where
  "digit_char d = char_of (48 + d)"

function show_nat :: "nat \<Rightarrow> string" where
  "show_nat n = (if n < 10 then [digit_char n] else show_nat (n div 10) @ [digit_char (n mod 10)])"
  by pat_completeness auto
termination
  by (relation "measure (\<lambda>n. n)") auto

section \<open>The outside world\<close>

text \<open>
  Every tool reads the process environment and then talks to one of three providers: the
  search client (\<^verbatim>\<open>FirecrawlApp.search\<close>), the commerce GraphQL endpoint
  (\<^verbatim>\<open>httpx.AsyncClient.post\<close>) and the datastore (\<^verbatim>\<open>supabase\<close>).  The providers
  are an oracle \<open>world\<close>: for each request, what the call returns or raises.  A tool
  returns its result together with the list of the network calls it issued, in order.
\<close>

type_synonym environ = "string \<Rightarrow> string option"

text \<open>
  \<^verbatim>\<open>search_resp.data if hasattr(search_resp, "data") else search_resp\<close>: the search
  client returns either an object with a \<^verbatim>\<open>data\<close> attribute or a plain value.
\<close>

datatype search_resp = WithData pyval | Plain pyval

datatype search_outcome = SearchRaises exn | SearchReturns search_resp

text \<open>
  An HTTP response: \<open>resp_json\<close> is what \<^verbatim>\<open>resp.json()\<close> returns or raises, and
  \<open>resp_status_message\<close> the message that \<^verbatim>\<open>raise_for_status()\<close> gives its
  exception.
\<close>

record http_response =
  resp_status :: nat
  resp_status_message :: string
  resp_text :: string
  resp_json :: "exn + pyval"

datatype http_outcome = PostRaises exn | PostReturns http_response

text \<open>
  The five datastore requests that the tools build, each executed by \<^verbatim>\<open>.execute()\<close>:
  \<^item> \<open>InsertOrder row\<close>: \<^verbatim>\<open>table("orders").insert(row)\<close>;
  \<^item> \<open>SelectOrders n\<close>: \<^verbatim>\<open>table("orders").select("*").order("ordered_at", desc=True).limit(n)\<close>;
  \<^item> \<open>UpsertLimit row\<close>: \<^verbatim>\<open>table("spending_limits").upsert(row, on_conflict="user_identifier")\<close>;
  \<^item> \<open>SelectLimit u\<close>: \<^verbatim>\<open>table("spending_limits").select("limit_value").eq("user_identifier", u)\<close>;
  \<^item> \<open>SelectOrdersSince u t\<close>: \<^verbatim>\<open>table("orders").select("total_amount_value,
    total_amount_currency, created_at").eq("user_identifier", u).gte("created_at", t)\<close>.
\<close>

datatype db_query =
    InsertOrder pyval
  | SelectOrders int
  | UpsertLimit pyval
  | SelectLimit string
  | SelectOrdersSince string string

text \<open>
  A datastore response: \<open>db_error\<close> is \<open>None\<close> when
  \<^verbatim>\<open>hasattr(resp, "error") and resp.error\<close> is false, and otherwise holds
  \<^verbatim>\<open>resp.error.message\<close> and \<^verbatim>\<open>str(resp.error)\<close>.
\<close>

record db_response =
  db_error :: "(pyval \<times> string) option"
  db_data :: pyval

datatype db_outcome = ExecuteRaises exn | ExecuteReturns db_response

record datetime =
  dt_year :: nat
  dt_month :: nat
  dt_day :: nat
  dt_hour :: nat
  dt_minute :: nat
  dt_second :: nat
  dt_microsecond :: nat

text \<open>
  \<open>str_of\<close> is Python's \<^verbatim>\<open>str()\<close> on a value, \<open>float_of_str\<close> is
  \<^verbatim>\<open>float()\<close> on a string (it raises \<^verbatim>\<open>ValueError\<close> on a string that is not
  a number), \<open>create_client\<close> tells whether \<^verbatim>\<open>supabase.create_client\<close> raises,
  \<open>fastmcp_Image\<close> is the constructor \<^verbatim>\<open>fastmcp.Image(path)\<close>,
  \<open>utc_now\<close> is \<^verbatim>\<open>datetime.now(timezone.utc)\<close>.
\<close>

record world =
  firecrawl_search :: "string \<Rightarrow> string \<Rightarrow> nat \<Rightarrow> search_outcome"
  http_post :: "string \<Rightarrow> (string \<times> string) list \<Rightarrow> pyval \<Rightarrow> http_outcome"
  create_client :: "string \<Rightarrow> string \<Rightarrow> exn option"
  fastmcp_Image :: "pyval \<Rightarrow> exn + pyval"
  db_execute :: "db_query \<Rightarrow> db_outcome"
  utc_now :: datetime
  str_of :: "pyval \<Rightarrow> string"
  float_of_str :: "string \<Rightarrow> exn + pyfloat"

datatype call =
    FirecrawlSearch string string nat
  | HttpPost string "(string \<times> string) list" pyval
  | DbExecute db_query

text \<open>\<^verbatim>\<open>not os.environ.get(k)\<close>: the variable is unset or empty.\<close>

definition env_unset :: "environ \<Rightarrow> string \<Rightarrow> bool" where
  "env_unset env k = (case env k of None \<Rightarrow> True | Some v \<Rightarrow> v = [])"

text \<open>
  The value a present variable has; only read after \<open>env_unset\<close> has been excluded.
\<close>

definition env_value :: "environ \<Rightarrow> string \<Rightarrow> string" where
  "env_value env k = (case env k of None \<Rightarrow> [] | Some v \<Rightarrow> v)"

section \<open>Server status\<close>

definition get_server_status :: string where
  "get_server_status = ''Poltergeist MCP Server is running and ready to haunt... I mean, help!''"

section \<open>Product research\<close>

text \<open>The loop of \<^verbatim>\<open>research_products\<close> over the search results.\<close>

definition process_result :: "pyval \<Rightarrow> exn + pyval" where
  "process_result result =
     and_then (py_get_default result ''title'' (PStr ''N/A'')) (\<lambda>title.
     and_then (py_get_default result ''url'' (PStr ''N/A'')) (\<lambda>url.
     and_then (py_get_default result ''description'' (PStr [])) (\<lambda>snippet.
     Inr (PDict [(''title'', title), (''url'', url), (''snippet'', snippet)]))))"

fun process_results :: "pyval list \<Rightarrow> exn + pyval list" where
  "process_results [] = Inr []"
| "process_results (result # rest) =
     and_then (process_result result) (\<lambda>entry.
     and_then (process_results rest) (\<lambda>entries. Inr (entry # entries)))"

definition search_results_of :: "search_resp \<Rightarrow> pyval" where
  "search_results_of search_resp = (case search_resp of WithData d \<Rightarrow> d | Plain v \<Rightarrow> v)"

text \<open>The body of the \<^verbatim>\<open>try\<close> block, after the search call has returned or raised.\<close>

definition research_body :: "world \<Rightarrow> search_outcome \<Rightarrow> exn + pyval" where
  "research_body w outcome =
     (case outcome of
        SearchRaises e \<Rightarrow> Inl e
      | SearchReturns search_resp \<Rightarrow>
          (let search_results = search_results_of search_resp
           in if truthy search_results
              then and_then (py_iter search_results) (\<lambda>results.
                   and_then (process_results results) (\<lambda>processed_results.
                   Inr (PDict [(''results'', PList processed_results)])))
              else Inr (PDict [(''error'', PStr ''Unexpected format from Firecrawl search.''),
                               (''details'', PStr (str_of w search_results))])))"

definition research_products :: "world \<Rightarrow> environ \<Rightarrow> string \<Rightarrow> call list \<times> pyval" where
  "research_products w env query =
     (if env_unset env ''FIRECRAWL_API_KEY''
      then ([], PDict [(''error'', PStr ''FIRECRAWL_API_KEY not set.'')])
      else
        (let api_key = env_value env ''FIRECRAWL_API_KEY''
         in ([FirecrawlSearch api_key query 10],
             (case research_body w (firecrawl_search w api_key query 10) of
                Inr result \<Rightarrow> result
              | Inl e \<Rightarrow>
                  PDict [(''error'',
                          PStr (''An error occurred during Firecrawl search: '' @ exn_str e))]))))"

section \<open>The commerce provider\<close>

definition rye_graphql_endpoint :: string where
  "rye_graphql_endpoint = ''https://staging.graphql.api.rye.com/v1/query''"

text \<open>\<^verbatim>\<open>not all([rye_auth_header, rye_shopper_ip])\<close>.\<close>

definition rye_env_missing :: "environ \<Rightarrow> bool" where
  "rye_env_missing env = (env_unset env ''RYE_AUTH_HEADER'' \<or> env_unset env ''RYE_SHOPPER_IP'')"

definition rye_headers :: "environ \<Rightarrow> (string \<times> string) list" where
  "rye_headers env =
     [(''Authorization'', env_value env ''RYE_AUTH_HEADER''),
      (''Rye-Shopper-IP'', env_value env ''RYE_SHOPPER_IP''),
      (''Content-Type'', ''application/json'')]"

text \<open>
  \<^verbatim>\<open>client.post(...)\<close>, \<^verbatim>\<open>resp.raise_for_status()\<close>, \<^verbatim>\<open>resp.json()\<close>: the
  parsed body of a 2xx response, or the exception that one of the three raises
  (\<^verbatim>\<open>raise_for_status\<close> raises on every status that is not 2xx).
\<close>

definition post_json :: "world \<Rightarrow> string \<Rightarrow> (string \<times> string) list \<Rightarrow> pyval \<Rightarrow> exn + pyval" where
  "post_json w url headers body =
     (case http_post w url headers body of
        PostRaises e \<Rightarrow> Inl e
      | PostReturns resp \<Rightarrow>
          if 200 \<le> resp_status resp \<and> resp_status resp < 300 then resp_json resp
          else Inl (HTTPStatusError (resp_status_message resp) (resp_status resp) (resp_text resp)))"

definition graphql_request :: "string \<Rightarrow> pyval \<Rightarrow> pyval" where
  "graphql_request query variables = PDict [(''query'', PStr query), (''variables'', variables)]"

fun join_lines :: "string list \<Rightarrow> string" where
  "join_lines [] = []"
| "join_lines [l] = l"
| "join_lines (l # ls) = l @ [CHR 0x0A] @ join_lines ls"

definition tracking_mutation :: string where
  "tracking_mutation = join_lines
     [[],
      ''    mutation RequestAmazonProductByURL($input: RequestAmazonProductByURLInput!) {'',
      ''        requestAmazonProductByURL(input: $input) {'',
      ''            productId'',
      ''        }'',
      ''    }'',
      ''    '']"

definition product_details_query :: string where
  "product_details_query = join_lines
     [[],
      ''    query ProductDetails($input: ProductByIDInput!) {'',
      ''        product: productByID(input: $input) {'',
      ''            title'',
      ''            url'',
      ''            isAvailable'',
      ''            price { displayValue value currency }'',
      ''            images { url }'',
      ''            ... on AmazonProduct {'',
      ''                ASIN'',
      ''            }'',
      ''        }'',
      ''    }'',
      ''    '']"

definition create_cart_mutation :: string where
  "create_cart_mutation = join_lines
     [[],
      ''    mutation CreateCart($input: CartCreateInput!) {'',
      ''        createCart(input: $input) {'',
      ''            cart {'',
      ''                id'',
      ''                cost {'',
      ''                    total { value displayValue currency }'',
      ''                    subtotal { value displayValue currency }'',
      ''                    shipping { value displayValue currency }'',
      ''                    isEstimated'',
      ''                }'',
      ''                stores {'',
      ''                    ... on AmazonStore {'',
      ''                        cartLines {'',
      ''                            quantity'',
      ''                            product {'',
      ''                                id'',
      ''                                title'',
      ''                            }'',
      ''                        }'',
      ''                        errors { # Errors specific to this store'',
      ''                            code'',
      ''                            message'',
      ''                        }'',
      ''                    }'',
      ''                    # Could add ShopifyStore or other types if needed'',
      ''                }'',
      ''            }'',
      ''            errors { # Top-level errors for the createCart mutation'',
      ''                code'',
      ''                message'',
      ''            }'',
      ''        }'',
      ''    }'',
      ''    '']"

definition get_cart_query :: string where
  "get_cart_query = join_lines
     [[],
      ''    query GetCart($id: ID!) {'',
      ''      getCart(id: $id) {'',
      ''        cart {'',
      ''          id'',
      ''          cost {'',
      ''            total { value currency }'',
      ''            subtotal { value currency }'',
      ''            shipping { value currency }'',
      ''            tax { value currency }'',
      ''          }'',
      ''          stores {'',
      ''            ... on AmazonStore {'',
      ''              cartLines {'',
      ''                quantity'',
      ''                product {'',
      ''                  id'',
      ''                  title'',
      ''                  price { value currency }'',
      ''                }'',
      ''              }'',
      ''            }'',
      ''          }'',
      ''        }'',
      ''        errors { code message }'',
      ''      }'',
      ''    }'',
      ''    '']"

subsection \<open>Product tracking request\<close>

definition tracking_body :: "exn + pyval \<Rightarrow> exn + pyval" where
  "tracking_body posted =
     and_then posted (\<lambda>response_data.
     and_then (py_get response_data ''errors'') (\<lambda>errors.
     if truthy errors
     then and_then (py_item response_data ''errors'') (\<lambda>details.
          Inr (PDict [(''error'', PStr ''GraphQL error from Rye''), (''details'', details)]))
     else
       and_then (py_get_default response_data ''data'' (PDict [])) (\<lambda>data.
       and_then (py_get_default data ''requestAmazonProductByURL'' (PDict [])) (\<lambda>payload.
       and_then (py_get payload ''productId'') (\<lambda>product_id.
       if \<not> truthy product_id
       then Inr (PDict [(''error'', PStr ''productId not found in Rye response''),
                        (''details'', response_data)])
       else Inr (PDict [(''productId'', product_id)]))))))"

definition request_amazon_product_tracking :: "world \<Rightarrow> environ \<Rightarrow> string \<Rightarrow> call list \<times> pyval" where
  "request_amazon_product_tracking w env product_url =
     (if rye_env_missing env
      then ([], PDict [(''error'',
                  PStr ''RYE_AUTH_HEADER or RYE_SHOPPER_IP not set in environment variables.'')])
      else
        (let headers = rye_headers env;
             variables = PDict [(''input'', PDict [(''url'', PStr product_url)])];
             body = graphql_request tracking_mutation variables
         in ([HttpPost rye_graphql_endpoint headers body],
             (case tracking_body (post_json w rye_graphql_endpoint headers body) of
                Inr result \<Rightarrow> result
              | Inl (HTTPStatusError msg code body_text) \<Rightarrow>
                  PDict [(''error'', PStr (''HTTP error occurred while contacting Rye: '' @ show_nat code)),
                         (''details'', PStr body_text)]
              | Inl (RequestError msg) \<Rightarrow>
                  PDict [(''error'', PStr (''Request error occurred while contacting Rye: '' @ msg))]
              | Inl e \<Rightarrow>
                  PDict [(''error'', PStr (''An unexpected error occurred: '' @ exn_str e))]))))"

subsection \<open>Product detail lookup\<close>

text \<open>The loop that turns the image URLs of the product into preview objects.\<close>

fun image_previews :: "world \<Rightarrow> pyval list \<Rightarrow> exn + pyval list" where
  "image_previews w [] = Inr []"
| "image_previews w (img # rest) =
     (if is_dict img
      then and_then (py_get img ''url'') (\<lambda>url.
           if truthy url
           then and_then (py_item img ''url'') (\<lambda>url'.
                and_then (fastmcp_Image w url') (\<lambda>obj.
                and_then (image_previews w rest) (\<lambda>objs. Inr (obj # objs))))
           else image_previews w rest)
      else image_previews w rest)"

text \<open>\<^verbatim>\<open>d[k] = v\<close> on a dict: an existing key keeps its place.\<close>

fun dict_set :: "(string \<times> pyval) list \<Rightarrow> string \<Rightarrow> pyval \<Rightarrow> (string \<times> pyval) list" where
  "dict_set [] k v = [(k, v)]"
| "dict_set (kv # kvs) k v = (if fst kv = k then (k, v) # kvs else kv # dict_set kvs k v)"

fun py_setitem :: "pyval \<Rightarrow> string \<Rightarrow> pyval \<Rightarrow> exn + pyval" where
  "py_setitem (PDict kvs) k v = Inr (PDict (dict_set kvs k v))"
| "py_setitem d k v =
     Inl (TypeError (quoted (type_name d) @ '' object does not support item assignment''))"

definition details_body :: "world \<Rightarrow> exn + pyval \<Rightarrow> exn + pyval" where
  "details_body w posted =
     and_then posted (\<lambda>data.
     and_then (py_get data ''errors'') (\<lambda>errors.
     if truthy errors
     then and_then (py_item data ''errors'') (\<lambda>details.
          Inr (PDict [(''error'', PStr ''GraphQL error''), (''details'', details)]))
     else
       and_then (py_get_default data ''data'' (PDict [])) (\<lambda>inner.
       and_then (py_get inner ''product'') (\<lambda>product.
       if \<not> truthy product
       then Inr (PDict [(''error'', PStr ''Product not found''), (''details'', data)])
       else
         and_then (py_get_default product ''images'' (PList [])) (\<lambda>images.
         and_then (py_iter images) (\<lambda>imgs.
         and_then (image_previews w imgs) (\<lambda>img_objs.
         py_setitem product ''image_previews'' (PList img_objs))))))))"

definition fetch_amazon_product_details :: "world \<Rightarrow> environ \<Rightarrow> string \<Rightarrow> call list \<times> pyval" where
  "fetch_amazon_product_details w env product_id =
     (if rye_env_missing env
      then ([], PDict [(''error'',
                  PStr ''RYE_AUTH_HEADER or RYE_SHOPPER_IP not set in environment variables.'')])
      else
        (let headers = rye_headers env;
             variables = PDict [(''input'', PDict [(''id'', PStr product_id),
                                                   (''marketplace'', PStr ''AMAZON'')])];
             body = graphql_request product_details_query variables
         in ([HttpPost rye_graphql_endpoint headers body],
             (case details_body w (post_json w rye_graphql_endpoint headers body) of
                Inr result \<Rightarrow> result
              | Inl (HTTPStatusError msg code body_text) \<Rightarrow>
                  PDict [(''error'', PStr (''HTTP error '' @ show_nat code)),
                         (''details'', PStr body_text)]
              | Inl e \<Rightarrow> PDict [(''error'', PStr (exn_str e))]))))"

subsection \<open>Cart creation\<close>

text \<open>
  The structural check of the created cart, a chain of six \<^verbatim>\<open>or\<close> operands
  evaluated left to right until one is true.
\<close>

definition empty_cart_guard :: "pyval \<Rightarrow> exn + bool" where
  "empty_cart_guard cart_object =
     or_else (and_then (py_get cart_object ''stores'') (\<lambda>stores. Inr (\<not> truthy stores)))
    (or_else (and_then (py_item cart_object ''stores'') (\<lambda>stores. Inr (\<not> is_list stores)))
    (or_else (and_then (py_item cart_object ''stores'') (\<lambda>stores.
              and_then (py_len stores) (\<lambda>n. Inr (n = 0))))
    (or_else (and_then (py_item cart_object ''stores'') (\<lambda>stores.
              and_then (py_first stores) (\<lambda>store0.
              and_then (py_get store0 ''cartLines'') (\<lambda>cart_lines. Inr (\<not> truthy cart_lines)))))
    (or_else (and_then (py_item cart_object ''stores'') (\<lambda>stores.
              and_then (py_first stores) (\<lambda>store0.
              and_then (py_item store0 ''cartLines'') (\<lambda>cart_lines. Inr (\<not> is_list cart_lines)))))
             (and_then (py_item cart_object ''stores'') (\<lambda>stores.
              and_then (py_first stores) (\<lambda>store0.
              and_then (py_item store0 ''cartLines'') (\<lambda>cart_lines.
              and_then (py_len cart_lines) (\<lambda>n. Inr (n = 0))))))))))"

text \<open>The two failures that the checks of the created cart return.\<close>

definition empty_cart_failure :: "pyval \<Rightarrow> pyval" where
  "empty_cart_failure cart_object =
     PDict [(''error'', PStr ''Cart created but appears empty or item not added successfully.''),
            (''details'', PStr ''No stores or cartLines found in the response, or they are empty.''),
            (''cart_details_received'', cart_object)]"

definition store_level_failure :: "pyval \<Rightarrow> pyval \<Rightarrow> pyval" where
  "store_level_failure errors cart_object =
     PDict [(''error'', PStr ''Store-level error reported during cart creation.''),
            (''details'', errors),
            (''cart_details_received'', cart_object)]"

text \<open>
  The loop over the stores: the result of the first store whose \<^verbatim>\<open>errors\<close> entry is
  truthy and has a positive length, if there is one.
\<close>

fun store_level_error :: "pyval \<Rightarrow> pyval list \<Rightarrow> exn + pyval option" where
  "store_level_error cart_object [] = Inr None"
| "store_level_error cart_object (store # rest) =
     and_then (py_get store ''errors'') (\<lambda>errors.
     if truthy errors
     then and_then (py_item store ''errors'') (\<lambda>errors'.
          and_then (py_len errors') (\<lambda>n.
          if 0 < n
          then Inr (Some (store_level_failure errors' cart_object))
          else store_level_error cart_object rest))
     else store_level_error cart_object rest)"

definition create_cart_body :: "exn + pyval \<Rightarrow> exn + pyval" where
  "create_cart_body posted =
     and_then posted (\<lambda>response_data.
     and_then (py_get response_data ''errors'') (\<lambda>errors.
     if truthy errors
     then and_then (py_item response_data ''errors'') (\<lambda>details.
          Inr (PDict [(''error'', PStr ''GraphQL top-level error during cart creation''),
                      (''details'', details)]))
     else
       and_then (py_get_default response_data ''data'' (PDict [])) (\<lambda>data.
       and_then (py_get data ''createCart'') (\<lambda>create_cart_payload.
       if \<not> truthy create_cart_payload
       then Inr (PDict [(''error'', PStr (''Cart creation failed, '' @ quoted ''createCart''
                                           @ '' payload missing'')),
                        (''details'', response_data)])
       else
         and_then (py_get create_cart_payload ''errors'') (\<lambda>op_errors.
         if truthy op_errors
         then and_then (py_item create_cart_payload ''errors'') (\<lambda>details.
              Inr (PDict [(''error'', PStr ''GraphQL error within createCart mutation result''),
                          (''details'', details)]))
         else
           and_then (py_get create_cart_payload ''cart'') (\<lambda>cart_object.
           and_then (or_else (Inr (\<not> truthy cart_object))
                             (and_then (py_get cart_object ''id'') (\<lambda>cart_id. Inr (\<not> truthy cart_id))))
             (\<lambda>no_id.
           if no_id
           then Inr (PDict [(''error'', PStr ''Cart ID not found in successful cart creation''),
                            (''details'', create_cart_payload)])
           else
             and_then (empty_cart_guard cart_object) (\<lambda>empty.
             if empty
             then Inr (empty_cart_failure cart_object)
             else
               and_then (py_get_default cart_object ''stores'' (PList [])) (\<lambda>stores.
               and_then (py_iter stores) (\<lambda>store_list.
               and_then (store_level_error cart_object store_list) (\<lambda>found.
               case found of
                 Some failure \<Rightarrow> Inr failure
               | None \<Rightarrow> Inr create_cart_payload)))))))))))"

text \<open>The JSON body of the request: the mutation and its variables.\<close>

definition create_cart_request :: "string \<Rightarrow> int \<Rightarrow> pyval" where
  "create_cart_request product_id quantity =
     (let input_obj = PDict [(''items'', PDict [(''amazonCartItemsInput'',
                           PList [PDict [(''quantity'', PInt quantity),
                                         (''productId'', PStr product_id)]])])];
          variables = PDict [(''input'', input_obj)]
      in graphql_request create_cart_mutation variables)"

definition create_amazon_cart :: "world \<Rightarrow> environ \<Rightarrow> string \<Rightarrow> int \<Rightarrow> call list \<times> pyval" where
  "create_amazon_cart w env product_id quantity =
     (if rye_env_missing env
      then ([], PDict [(''error'', PStr ''RYE_AUTH_HEADER or RYE_SHOPPER_IP not set'')])
      else
        (let headers = rye_headers env;
             body = create_cart_request product_id quantity
         in ([HttpPost rye_graphql_endpoint headers body],
             (case create_cart_body (post_json w rye_graphql_endpoint headers body) of
                Inr result \<Rightarrow> result
              | Inl (HTTPStatusError msg code body_text) \<Rightarrow>
                  PDict [(''error'', PStr (''HTTP error during cart creation: '' @ show_nat code)),
                         (''details'', PStr body_text)]
              | Inl e \<Rightarrow>
                  PDict [(''error'', PStr (''An unexpected error occurred during cart creation: ''
                                           @ exn_str e))]))))"

subsection \<open>Cart retrieval\<close>

definition get_cart_body :: "exn + pyval \<Rightarrow> exn + pyval" where
  "get_cart_body posted =
     and_then posted (\<lambda>response_data.
     and_then (py_get response_data ''errors'') (\<lambda>errors.
     if truthy errors
     then and_then (py_item response_data ''errors'') (\<lambda>details.
          Inr (PDict [(''error'', PStr ''GraphQL top-level execution error fetching cart details''),
                      (''details'', details)]))
     else
       and_then (py_get_default response_data ''data'' (PDict [])) (\<lambda>data.
       and_then (py_get data ''getCart'') (\<lambda>get_cart_response_payload.
       if \<not> truthy get_cart_response_payload
       then Inr (PDict [(''error'', PStr (''No '' @ quoted ''getCart'' @ '' payload in response data'')),
                        (''details'', response_data)])
       else
         and_then (py_get get_cart_response_payload ''errors'') (\<lambda>op_errors.
         if truthy op_errors
         then and_then (py_item get_cart_response_payload ''errors'') (\<lambda>details.
              Inr (PDict [(''error'', PStr ''GraphQL error reported by getCart operation''),
                          (''details'', details)]))
         else
           and_then (py_get get_cart_response_payload ''cart'') (\<lambda>cart_details.
           if \<not> truthy cart_details
           then Inr (PDict [(''error'', PStr (''Could not retrieve nested '' @ quoted ''cart''
                                               @ '' details or cart not found'')),
                            (''details'', get_cart_response_payload)])
           else Inr cart_details))))))"

definition get_cart_request :: "string \<Rightarrow> pyval" where
  "get_cart_request cart_id = graphql_request get_cart_query (PDict [(''id'', PStr cart_id)])"

definition get_rye_cart_details :: "world \<Rightarrow> environ \<Rightarrow> string \<Rightarrow> call list \<times> pyval" where
  "get_rye_cart_details w env cart_id =
     (if rye_env_missing env
      then ([], PDict [(''error'', PStr ''RYE_AUTH_HEADER or RYE_SHOPPER_IP not set'')])
      else
        (let headers = rye_headers env;
             body = get_cart_request cart_id
         in ([HttpPost rye_graphql_endpoint headers body],
             (case get_cart_body (post_json w rye_graphql_endpoint headers body) of
                Inr result \<Rightarrow> result
              | Inl (HTTPStatusError msg code body_text) \<Rightarrow>
                  PDict [(''error'', PStr (''HTTP error fetching cart: '' @ show_nat code)),
                         (''details'', PStr body_text)]
              | Inl e \<Rightarrow>
                  PDict [(''error'', PStr (''Unexpected error fetching cart: '' @ exn_str e))]))))"

section \<open>Floating point\<close>

text \<open>
  Rounding of an exact rational result to binary64, round-half-even: \<open>ilog2 q\<close> is
  \<open>\<lfloor>log\<^sub>2 q\<rfloor>\<close> for a positive \<open>q\<close>, the spacing of the doubles around \<open>q\<close> is
  \<open>2\<^sup>e\<^sup>-\<^sup>5\<^sup>2\<close> for the exponent \<open>e\<close> of \<open>q\<close> (at least \<open>-1022\<close>, where the
  subnormal numbers begin), and a result of magnitude \<open>2\<^sup>1\<^sup>0\<^sup>2\<^sup>4\<close> or more overflows.
\<close>

definition round_half_even :: "rat \<Rightarrow> int" where
  "round_half_even x =
     (let f = \<lfloor>x\<rfloor>; d = x - of_int f
      in if d < 1 / 2 then f else if 1 / 2 < d then f + 1 else if even f then f else f + 1)"

definition ilog2 :: "rat \<Rightarrow> int" where
  "ilog2 q = (let (a, b) = quotient_of q; d = bitlen a - bitlen b
              in if power_int 2 d \<le> q then d else d - 1)"

definition round64 :: "rat \<Rightarrow> pyfloat" where
  "round64 q =
     (if q = 0 then Finite 0
      else let e = max (ilog2 \<bar>q\<bar>) (- 1022);
               u = power_int 2 (e - 52);
               r = of_int (round_half_even (q / u)) * u
           in if 2 ^ 1024 \<le> \<bar>r\<bar> then (if 0 < q then PosInf else NegInf) else Finite r)"

text \<open>Addition, division and order of floats, with the IEEE rules for infinities and NaN.\<close>

fun fadd :: "pyfloat \<Rightarrow> pyfloat \<Rightarrow> pyfloat" where
  "fadd NaN y = NaN"
| "fadd x NaN = NaN"
| "fadd PosInf NegInf = NaN"
| "fadd NegInf PosInf = NaN"
| "fadd PosInf y = PosInf"
| "fadd NegInf y = NegInf"
| "fadd x PosInf = PosInf"
| "fadd x NegInf = NegInf"
| "fadd (Finite a) (Finite b) = round64 (a + b)"

fun fneg :: "pyfloat \<Rightarrow> pyfloat" where
  "fneg (Finite a) = Finite (- a)"
| "fneg PosInf = NegInf"
| "fneg NegInf = PosInf"
| "fneg NaN = NaN"

definition fsub :: "pyfloat \<Rightarrow> pyfloat \<Rightarrow> pyfloat" where
  "fsub x y = fadd x (fneg y)"

fun fmul :: "pyfloat \<Rightarrow> pyfloat \<Rightarrow> pyfloat" where
  "fmul NaN y = NaN"
| "fmul x NaN = NaN"
| "fmul (Finite a) (Finite b) = round64 (a * b)"
| "fmul (Finite a) PosInf = (if a = 0 then NaN else if 0 < a then PosInf else NegInf)"
| "fmul (Finite a) NegInf = (if a = 0 then NaN else if 0 < a then NegInf else PosInf)"
| "fmul PosInf (Finite b) = (if b = 0 then NaN else if 0 < b then PosInf else NegInf)"
| "fmul NegInf (Finite b) = (if b = 0 then NaN else if 0 < b then NegInf else PosInf)"
| "fmul PosInf PosInf = PosInf"
| "fmul PosInf NegInf = NegInf"
| "fmul NegInf PosInf = NegInf"
| "fmul NegInf NegInf = PosInf"

text \<open>
  \<^verbatim>\<open>x / y\<close> on floats: Python raises on a zero divisor; \<open>fdiv_finite x b\<close> is the
  quotient by a finite divisor \<open>b\<close> that is not zero.
\<close>

fun fdiv_finite :: "pyfloat \<Rightarrow> rat \<Rightarrow> pyfloat" where
  "fdiv_finite (Finite a) b = round64 (a / b)"
| "fdiv_finite PosInf b = (if 0 < b then PosInf else NegInf)"
| "fdiv_finite NegInf b = (if 0 < b then NegInf else PosInf)"
| "fdiv_finite NaN b = NaN"

fun py_truediv :: "pyfloat \<Rightarrow> pyfloat \<Rightarrow> exn + pyfloat" where
  "py_truediv x (Finite b) =
     (if b = 0 then Inl (ZeroDivisionError ''float division by zero'')
      else Inr (fdiv_finite x b))"
| "py_truediv NaN y = Inr NaN"
| "py_truediv x NaN = Inr NaN"
| "py_truediv (Finite a) y = Inr (Finite 0)"
| "py_truediv x y = Inr NaN"

text \<open>\<^verbatim>\<open>x >= y\<close> on floats: false whenever an operand is NaN.\<close>

fun fge :: "pyfloat \<Rightarrow> pyfloat \<Rightarrow> bool" where
  "fge NaN y = False"
| "fge x NaN = False"
| "fge PosInf y = True"
| "fge x NegInf = True"
| "fge NegInf y = False"
| "fge x PosInf = False"
| "fge (Finite a) (Finite b) = (b \<le> a)"

text \<open>
  \<^verbatim>\<open>float(v)\<close>: a float is itself, an int is rounded (and is too large when the
  rounding overflows), a bool is 1.0 or 0.0, a string is parsed, anything else is a
  type error.
\<close>

definition float_type_error :: "pyval \<Rightarrow> exn" where
  "float_type_error v =
     TypeError (''float() argument must be a string or a real number, not '' @ quoted (type_name v))"

fun py_float :: "world \<Rightarrow> pyval \<Rightarrow> exn + pyfloat" where
  "py_float w (PFloat x) = Inr x"
| "py_float w (PInt n) =
     (case round64 (of_int n) of
        Finite r \<Rightarrow> Inr (Finite r)
      | other \<Rightarrow> Inl (OverflowError ''int too large to convert to float''))"
| "py_float w (PBool b) = Inr (Finite (if b then 1 else 0))"
| "py_float w (PStr s) = float_of_str w s"
| "py_float w v = Inl (float_type_error v)"

section \<open>The datastore\<close>

text \<open>\<^verbatim>\<open>not supabase_url or not supabase_key\<close>.\<close>

definition supabase_env_missing :: "environ \<Rightarrow> bool" where
  "supabase_env_missing env =
     (env_unset env ''SUPABASE_URL'' \<or> env_unset env ''SUPABASE_SERVICE_ROLE_KEY'')"

text \<open>
  \<^verbatim>\<open>create_client(supabase_url, supabase_key)\<close> followed by one request: the calls
  issued and what \<^verbatim>\<open>.execute()\<close> returns, or the exception of either step.
\<close>

definition supabase_execute :: "world \<Rightarrow> environ \<Rightarrow> db_query \<Rightarrow> call list \<times> (exn + db_response)" where
  "supabase_execute w env q =
     (case create_client w (env_value env ''SUPABASE_URL'')
                           (env_value env ''SUPABASE_SERVICE_ROLE_KEY'') of
        Some e \<Rightarrow> ([], Inl e)
      | None \<Rightarrow>
          ([DbExecute q],
           (case db_execute w q of ExecuteRaises e \<Rightarrow> Inl e | ExecuteReturns resp \<Rightarrow> Inr resp)))"

subsection \<open>Checkout\<close>

text \<open>
  \<^verbatim>\<open>(cost_info.get(k) or {}).get(field)\<close>, the access path of the three cost
  components.
\<close>

definition cost_field :: "pyval \<Rightarrow> string \<Rightarrow> string \<Rightarrow> exn + pyval" where
  "cost_field cost_info k field =
     and_then (py_get cost_info k) (\<lambda>component. py_get (py_or component (PDict [])) field)"

text \<open>\<^verbatim>\<open>float((cost_info.get(k) or {}).get("value") or 0)\<close>.\<close>

definition cost_raw :: "world \<Rightarrow> pyval \<Rightarrow> string \<Rightarrow> exn + pyfloat" where
  "cost_raw w cost_info k =
     and_then (cost_field cost_info k ''value'') (\<lambda>v. py_float w (py_or v (PInt 0)))"

definition total_value_of :: "world \<Rightarrow> pyval \<Rightarrow> exn + pyfloat" where
  "total_value_of w cost_info =
     and_then (cost_raw w cost_info ''subtotal'') (\<lambda>subtotal_raw.
     and_then (cost_raw w cost_info ''shipping'') (\<lambda>shipping_raw.
     and_then (cost_raw w cost_info ''tax'') (\<lambda>tax_raw.
     py_truediv (fadd (fadd subtotal_raw shipping_raw) tax_raw) (Finite 100))))"

text \<open>
  The chain \<^verbatim>\<open>a or b or c\<close> of the three currencies: an operand is evaluated only when
  the ones before it are falsy.
\<close>

definition total_currency_of :: "pyval \<Rightarrow> exn + pyval" where
  "total_currency_of cost_info =
     and_then (cost_field cost_info ''subtotal'' ''currency'') (\<lambda>c1.
     if truthy c1 then Inr c1
     else and_then (cost_field cost_info ''shipping'' ''currency'') (\<lambda>c2.
          if truthy c2 then Inr c2
          else cost_field cost_info ''tax'' ''currency''))"

definition snapshot_line :: "pyval \<Rightarrow> exn + pyval" where
  "snapshot_line line =
     and_then (py_get line ''product'') (\<lambda>p. let prod = py_or p (PDict []) in
     and_then (py_get prod ''price'') (\<lambda>pr. let price = py_or pr (PDict []) in
     and_then (py_get prod ''id'') (\<lambda>product_id.
     and_then (py_get prod ''title'') (\<lambda>title.
     and_then (py_get line ''quantity'') (\<lambda>quantity.
     and_then (py_get price ''value'') (\<lambda>price_value.
     and_then (py_get price ''currency'') (\<lambda>price_currency.
     Inr (PDict [(''productId'', product_id),
                 (''title'', title),
                 (''quantity'', quantity),
                 (''price_value'', price_value),
                 (''price_currency'', price_currency)]))))))))"

fun snapshot_lines :: "pyval list \<Rightarrow> exn + pyval list" where
  "snapshot_lines [] = Inr []"
| "snapshot_lines (line # rest) =
     and_then (snapshot_line line) (\<lambda>item.
     and_then (snapshot_lines rest) (\<lambda>items. Inr (item # items)))"

fun snapshot_stores :: "pyval list \<Rightarrow> exn + pyval list" where
  "snapshot_stores [] = Inr []"
| "snapshot_stores (store # rest) =
     and_then (py_get store ''cartLines'') (\<lambda>cart_lines.
     and_then (py_iter (py_or cart_lines (PList []))) (\<lambda>lines.
     and_then (snapshot_lines lines) (\<lambda>items.
     and_then (snapshot_stores rest) (\<lambda>more. Inr (items @ more)))))"

definition items_snapshot_of :: "pyval \<Rightarrow> exn + pyval list" where
  "items_snapshot_of cart_details =
     and_then (py_get cart_details ''stores'') (\<lambda>stores.
     and_then (py_iter (py_or stores (PList []))) snapshot_stores)"

text \<open>
  The statements between the two early returns and the \<^verbatim>\<open>try\<close>: the total, the
  currency and the items snapshot.  They run outside any handler.
\<close>

definition checkout_extract :: "world \<Rightarrow> pyval \<Rightarrow> exn + (pyfloat \<times> pyval \<times> pyval list)" where
  "checkout_extract w cart_details =
     and_then (py_get cart_details ''cost'') (\<lambda>cost. let cost_info = py_or cost (PDict []) in
     and_then (total_value_of w cost_info) (\<lambda>total_value.
     and_then (total_currency_of cost_info) (\<lambda>total_currency.
     and_then (items_snapshot_of cart_details) (\<lambda>items_snapshot.
     Inr (total_value, total_currency, items_snapshot)))))"

definition order_data_of :: "string \<Rightarrow> pyval \<Rightarrow> pyfloat \<Rightarrow> pyval \<Rightarrow> pyval list \<Rightarrow> pyval" where
  "order_data_of cart_id email total_value total_currency items_snapshot =
     PDict [(''rye_order_id'', PNone),
            (''rye_cart_id'', PStr cart_id),
            (''user_identifier'', email),
            (''status'', PStr ''CREATED''),
            (''total_amount_value'', PFloat total_value),
            (''total_amount_currency'', total_currency),
            (''items_snapshot'', PList items_snapshot)]"

text \<open>
  \<^verbatim>\<open>resp.error.message or str(resp.error)\<close>, for an error with message \<open>m\<close> and
  string form \<open>s\<close>.
\<close>

definition error_details :: "pyval \<times> string \<Rightarrow> pyval" where
  "error_details err = py_or (fst err) (PStr (snd err))"

text \<open>The \<^verbatim>\<open>try\<close> block of the checkout and its handler.\<close>

definition checkout_insert ::
  "world \<Rightarrow> environ \<Rightarrow> string \<Rightarrow> pyval \<Rightarrow> pyfloat \<times> pyval \<times> pyval list \<Rightarrow> call list \<times> pyval" where
  "checkout_insert w env cart_id buyer_info extracted =
     (case extracted of (total_value, total_currency, items_snapshot) \<Rightarrow>
      (case create_client w (env_value env ''SUPABASE_URL'')
                            (env_value env ''SUPABASE_SERVICE_ROLE_KEY'') of
         Some e \<Rightarrow> ([], PDict [(''error'', PStr (''Checkout failed: '' @ exn_str e))])
       | None \<Rightarrow>
          (case py_get buyer_info ''email'' of
             Inl e \<Rightarrow> ([], PDict [(''error'', PStr (''Checkout failed: '' @ exn_str e))])
           | Inr email \<Rightarrow>
               (let order_data = order_data_of cart_id email total_value total_currency items_snapshot
                in ([DbExecute (InsertOrder order_data)],
                    (case db_execute w (InsertOrder order_data) of
                       ExecuteRaises e \<Rightarrow> PDict [(''error'', PStr (''Checkout failed: '' @ exn_str e))]
                     | ExecuteReturns resp \<Rightarrow>
                         (case db_error resp of
                            Some err \<Rightarrow>
                              PDict [(''error'', PStr ''Supabase insert failed''),
                                     (''details'', error_details err),
                                     (''order_data'', order_data)]
                          | None \<Rightarrow>
                              PDict [(''status'', PStr ''success''),
                                     (''order_data'', order_data),
                                     (''supabase_insert'', db_data resp)])))))))"

text \<open>
  The checkout returns a result dictionary or lets an exception escape (\<open>Inl\<close>).  The
  two \<^verbatim>\<open>print\<close> calls write to the standard output only and are left out.
\<close>

definition checkout_amazon_cart ::
  "world \<Rightarrow> environ \<Rightarrow> string \<Rightarrow> pyval \<Rightarrow> call list \<times> (exn + pyval)" where
  "checkout_amazon_cart w env cart_id buyer_info =
     (if supabase_env_missing env
      then ([], Inr (PDict [(''error'', PStr ''Supabase URL or service role key not configured.'')]))
      else
        (case get_rye_cart_details w env cart_id of (fetch_calls, cart_details) \<Rightarrow>
           if \<not> is_dict cart_details
           then (fetch_calls, Inr (PDict [(''error'', PStr ''Invalid cart details received''),
                                          (''details'', PStr (str_of w cart_details))]))
           else
             (case py_get cart_details ''error'' of
                Inl e \<Rightarrow> (fetch_calls, Inl e)
              | Inr err \<Rightarrow>
                  if truthy err
                  then (fetch_calls,
                        Inr (PDict [(''error'', PStr ''Failed to fetch cart details before checkout''),
                                    (''details'', cart_details)]))
                  else
                    (case checkout_extract w cart_details of
                       Inl e \<Rightarrow> (fetch_calls, Inl e)
                     | Inr extracted \<Rightarrow>
                         (case checkout_insert w env cart_id buyer_info extracted of
                            (insert_calls, result) \<Rightarrow> (fetch_calls @ insert_calls, Inr result))))))"

subsection \<open>Purchase history\<close>

definition list_my_purchases :: "world \<Rightarrow> environ \<Rightarrow> int \<Rightarrow> call list \<times> pyval" where
  "list_my_purchases w env limit =
     (if supabase_env_missing env
      then ([], PDict [(''error'', PStr ''Supabase URL or key not set in environment.'')])
      else
        (case supabase_execute w env (SelectOrders limit) of (calls, outcome) \<Rightarrow>
           (calls,
            (case outcome of
               Inl e \<Rightarrow> PDict [(''error'', PStr (''Unexpected error fetching purchases: '' @ exn_str e))]
             | Inr response \<Rightarrow>
                 (case db_error response of
                    Some err \<Rightarrow>
                      PDict [(''error'', PStr ''Supabase query failed''),
                             (''details'', if truthy (fst err) then fst err else PStr (snd err))]
                  | None \<Rightarrow>
                      PDict [(''status'', PStr ''success''),
                             (''orders'', py_or (db_data response) (PList []))])))))"

subsection \<open>Spending limit\<close>

definition set_spending_limit :: "world \<Rightarrow> environ \<Rightarrow> string \<Rightarrow> pyval \<Rightarrow> call list \<times> pyval" where
  "set_spending_limit w env user_identifier limit_value =
     (if supabase_env_missing env
      then ([], PDict [(''error'', PStr ''Supabase URL or service role key not configured.'')])
      else
        (case supabase_execute w env
                (UpsertLimit (PDict [(''user_identifier'', PStr user_identifier),
                                     (''limit_value'', limit_value)])) of
           (calls, outcome) \<Rightarrow>
           (calls,
            (case outcome of
               Inl e \<Rightarrow> PDict [(''error'', PStr (''An unexpected error occurred: '' @ exn_str e))]
             | Inr resp \<Rightarrow>
                 (case db_error resp of
                    Some err \<Rightarrow>
                      PDict [(''error'', PStr ''Failed to set spending limit''),
                             (''details'', fst err)]
                  | None \<Rightarrow>
                      PDict [(''status'', PStr ''success''),
                             (''message'', PStr (''Spending limit set to '' @ str_of w limit_value
                                                 @ '' for '' @ user_identifier @ ''.'')),
                             (''data'', db_data resp)])))))"

subsection \<open>Spending status\<close>

text \<open>
  \<^verbatim>\<open>now.replace(hour=0, minute=0, second=0, microsecond=0).isoformat()\<close> of a UTC
  time: the date, midnight, and the offset \<^verbatim>\<open>+00:00\<close>.
\<close>

definition pad_left :: "nat \<Rightarrow> string \<Rightarrow> string" where
  "pad_left n s = replicate (n - length s) CHR ''0'' @ s"

definition today_start_of :: "datetime \<Rightarrow> string" where
  "today_start_of now =
     pad_left 4 (show_nat (dt_year now)) @ ''-'' @ pad_left 2 (show_nat (dt_month now)) @ ''-''
     @ pad_left 2 (show_nat (dt_day now)) @ ''T00:00:00+00:00''"

text \<open>The three advisory messages, as UTF-8.\<close>

definition advice_limit_reached :: string where
  "advice_limit_reached =
     ''Whoa, you'' @ [CHR 0x27] @ ''ve hit or exceeded your daily spending limit! ''
     @ ''Time for some anti-retail therapy '' @ [CHR 0xF0, CHR 0x9F, CHR 0x8D, CHR 0xB5] @ ''.''"

definition advice_approaching :: string where
  "advice_approaching =
     ''You'' @ [CHR 0x27] @ ''re getting close to your daily limit'' @ [CHR 0xE2, CHR 0x80, CHR 0x94]
     @ ''maybe take a breath before splurging more.''"

definition advice_clear :: string where
  "advice_clear = ''All clear! You have room to spend today.''"

text \<open>
  The sentinel \<^verbatim>\<open>1e30\<close> and the factor \<^verbatim>\<open>0.9\<close>: float literals denote the double
  nearest to the decimal.
\<close>

definition default_limit :: pyfloat where
  "default_limit = round64 (10 ^ 30)"

definition approach_factor :: pyfloat where
  "approach_factor = round64 (9 / 10)"

text \<open>The \<^verbatim>\<open>if\<close> / \<^verbatim>\<open>elif\<close> / \<^verbatim>\<open>else\<close> that chooses the advice.\<close>

definition advice_of :: "pyfloat \<Rightarrow> pyfloat \<Rightarrow> string" where
  "advice_of total_spent limit_value =
     (if fge total_spent limit_value then advice_limit_reached
      else if fge total_spent (fmul approach_factor limit_value) then advice_approaching
      else advice_clear)"

text \<open>
  \<^verbatim>\<open>limit_resp.data and len(limit_resp.data) > 0\<close>, then
  \<^verbatim>\<open>float(limit_resp.data[0].get("limit_value", 0))\<close>, else the sentinel.
\<close>

definition limit_value_of :: "world \<Rightarrow> pyval \<Rightarrow> exn + pyfloat" where
  "limit_value_of w data =
     (if truthy data
      then and_then (py_len data) (\<lambda>n.
           if 0 < n
           then and_then (py_first data) (\<lambda>row.
                and_then (py_get_default row ''limit_value'' (PInt 0)) (py_float w))
           else Inr default_limit)
      else Inr default_limit)"

text \<open>
  \<^verbatim>\<open>[float(o.get("total_amount_value", 0) or 0) for o in orders_today]\<close> and its
  \<^verbatim>\<open>sum\<close>, which starts from the int \<^verbatim>\<open>0\<close> and adds from left to right: the sum
  of no floats is the int \<^verbatim>\<open>0\<close>, and in arithmetic and comparisons with a float that
  int acts as the float \<^verbatim>\<open>0.0\<close>.
\<close>

fun order_values :: "world \<Rightarrow> pyval list \<Rightarrow> exn + pyfloat list" where
  "order_values w [] = Inr []"
| "order_values w (order # rest) =
     and_then (py_get_default order ''total_amount_value'' (PInt 0)) (\<lambda>v.
     and_then (py_float w (py_or v (PInt 0))) (\<lambda>x.
     and_then (order_values w rest) (\<lambda>xs. Inr (x # xs))))"

definition float_sum :: "pyfloat list \<Rightarrow> pyfloat" where
  "float_sum xs = foldl fadd (Finite 0) xs"

definition py_sum :: "pyfloat list \<Rightarrow> pyval" where
  "py_sum xs = (if xs = [] then PInt 0 else PFloat (float_sum xs))"

definition spending_result :: "pyfloat \<Rightarrow> pyval \<Rightarrow> pyfloat list \<Rightarrow> pyval" where
  "spending_result limit_value orders_today values =
     (let total_spent = float_sum values;
          remaining = fsub limit_value total_spent
      in PDict [(''status'', PStr ''success''),
                (''spending_limit'', PFloat limit_value),
                (''total_spent_today'', py_sum values),
                (''remaining_limit'', PFloat remaining),
                (''transactions_today'', orders_today),
                (''advice'', PStr (advice_of total_spent limit_value))])"

definition unexpected_error :: "exn \<Rightarrow> pyval" where
  "unexpected_error e = PDict [(''error'', PStr (''An unexpected error occurred: '' @ exn_str e))]"

text \<open>The second half of the spending status: the orders of today and the result.\<close>

definition spending_orders :: "world \<Rightarrow> string \<Rightarrow> pyfloat \<Rightarrow> call list \<times> pyval" where
  "spending_orders w user_identifier limit_value =
     (let q = SelectOrdersSince user_identifier (today_start_of (utc_now w))
      in ([DbExecute q],
          (case db_execute w q of
             ExecuteRaises e \<Rightarrow> unexpected_error e
           | ExecuteReturns orders_resp \<Rightarrow>
               (case db_error orders_resp of
                  Some err \<Rightarrow>
                    PDict [(''error'', PStr (''Failed to fetch today'' @ [CHR 0x27] @ ''s orders'')),
                           (''details'', fst err)]
                | None \<Rightarrow>
                    (let orders_today = py_or (db_data orders_resp) (PList [])
                     in (case and_then (py_iter orders_today) (order_values w) of
                           Inl e \<Rightarrow> unexpected_error e
                         | Inr values \<Rightarrow> spending_result limit_value orders_today values))))))"

definition get_spending_status :: "world \<Rightarrow> environ \<Rightarrow> string \<Rightarrow> call list \<times> pyval" where
  "get_spending_status w env user_identifier =
     (if supabase_env_missing env
      then ([], PDict [(''error'', PStr ''Supabase URL or service role key not configured.'')])
      else
        (case supabase_execute w env (SelectLimit user_identifier) of (limit_calls, outcome) \<Rightarrow>
           (case outcome of
              Inl e \<Rightarrow> (limit_calls, unexpected_error e)
            | Inr limit_resp \<Rightarrow>
                (case db_error limit_resp of
                   Some err \<Rightarrow>
                     (limit_calls, PDict [(''error'', PStr ''Failed to fetch spending limit''),
                                          (''details'', fst err)])
                 | None \<Rightarrow>
                     (case limit_value_of w (db_data limit_resp) of
                        Inl e \<Rightarrow> (limit_calls, unexpected_error e)
                      | Inr limit_value \<Rightarrow>
                          (case spending_orders w user_identifier limit_value of
                             (order_calls, result) \<Rightarrow> (limit_calls @ order_calls, result)))))))"

section \<open>Results and example inputs\<close>

text \<open>
  A failure result is a dictionary with a truthy \<^verbatim>\<open>error\<close> entry: the test that the
  checkout itself applies to the result of the cart retrieval.
\<close>

definition is_failure :: "pyval \<Rightarrow> bool" where
  "is_failure r = (case py_get r ''error'' of Inl e \<Rightarrow> False | Inr v \<Rightarrow> truthy v)"

text \<open>An environment with every variable set, and the response to a request that succeeds.\<close>

definition full_env :: environ where
  "full_env =
     Map.empty(''FIRECRAWL_API_KEY'' \<mapsto> ''fc-key'',
               ''RYE_AUTH_HEADER'' \<mapsto> ''Basic cnllLWtleQ=='',
               ''RYE_SHOPPER_IP'' \<mapsto> ''203.0.113.7'',
               ''SUPABASE_URL'' \<mapsto> ''https://db.example.org'',
               ''SUPABASE_SERVICE_ROLE_KEY'' \<mapsto> ''service-role-key'')"

definition ok_response :: "pyval \<Rightarrow> http_response" where
  "ok_response body =
     \<lparr>resp_status = 200, resp_status_message = [], resp_text = [], resp_json = Inr body\<rparr>"

definition db_ok :: "pyval \<Rightarrow> db_outcome" where
  "db_ok rows = ExecuteReturns \<lparr>db_error = None, db_data = rows\<rparr>"


text \<open>
  A cart as the provider returns it for the cart query, with the three cost components
  given in minor units, and the envelope of the answer.
\<close>

definition money :: "int \<Rightarrow> string \<Rightarrow> pyval" where
  "money cents currency = PDict [(''value'', PInt cents), (''currency'', PStr currency)]"

definition example_lines :: pyval where
  "example_lines =
     PList [PDict [(''quantity'', PInt 1),
                   (''product'', PDict [(''id'', PStr ''B00EXAMPLE''),
                                        (''title'', PStr ''Kettle''),
                                        (''price'', money 1000 ''USD'')])]]"

definition example_cart :: "pyval \<Rightarrow> pyval \<Rightarrow> pyval \<Rightarrow> pyval" where
  "example_cart subtotal shipping tax =
     PDict [(''id'', PStr ''cart-1''),
            (''cost'', PDict [(''subtotal'', subtotal), (''shipping'', shipping), (''tax'', tax)]),
            (''stores'', PList [PDict [(''cartLines'', example_lines)]])]"

definition get_cart_response :: "pyval \<Rightarrow> pyval" where
  "get_cart_response cart =
     PDict [(''data'', PDict [(''getCart'', PDict [(''cart'', cart), (''errors'', PList [])])])]"

definition example_items :: "pyval list" where
  "example_items =
     [PDict [(''productId'', PStr ''B00EXAMPLE''),
             (''title'', PStr ''Kettle''),
             (''quantity'', PInt 1),
             (''price_value'', PInt 1000),
             (''price_currency'', PStr ''USD'')]]"

text \<open>The same cart with any list of cost components, so that one can be left out.\<close>

definition example_cart_costing :: "(string \<times> pyval) list \<Rightarrow> pyval" where
  "example_cart_costing cost_fields =
     PDict [(''id'', PStr ''cart-1''),
            (''cost'', PDict cost_fields),
            (''stores'', PList [PDict [(''cartLines'', example_lines)]])]"

text \<open>
  The cost object as the specification reads it.  A component (subtotal, shipping or
  tax) is looked up by its key in the fields of the cost object, so it is \<open>None\<close> when
  the key is absent.  Its raw amount is the integer under \<^verbatim>\<open>value\<close>, in minor units;
  a component or a value that is absent or null counts as the amount 0.  Its currency is
  the entry under \<^verbatim>\<open>currency\<close>, null when the component or the entry is absent.  A
  component or a value of any other shape has no amount.
\<close>

fun value_amount :: "pyval option \<Rightarrow> int option" where
  "value_amount None = Some 0"
| "value_amount (Some PNone) = Some 0"
| "value_amount (Some (PInt n)) = Some n"
| "value_amount (Some v) = None"

fun component_amount :: "pyval option \<Rightarrow> int option" where
  "component_amount None = Some 0"
| "component_amount (Some PNone) = Some 0"
| "component_amount (Some (PDict entries)) = value_amount (map_of entries ''value'')"
| "component_amount (Some v) = None"

fun component_currency :: "pyval option \<Rightarrow> pyval" where
  "component_currency (Some (PDict entries)) =
     (case map_of entries ''currency'' of None \<Rightarrow> PNone | Some c \<Rightarrow> c)"
| "component_currency other = PNone"

text \<open>
  A world for the examples: the commerce provider answers every request with status 200
  and the body \<open>body\<close>, the datastore answers by \<open>store\<close>, the search finds nothing.
  Its \<open>str_of\<close> and \<open>float_of_str\<close> are placeholders that no example reads.
\<close>

definition example_world :: "pyval \<Rightarrow> (db_query \<Rightarrow> db_outcome) \<Rightarrow> world" where
  "example_world body store =
     \<lparr>firecrawl_search = \<lambda>api_key q n. SearchReturns (Plain (PList [])),
      http_post = \<lambda>url headers request. PostReturns (ok_response body),
      create_client = \<lambda>url key. None,
      fastmcp_Image = \<lambda>v. case v of PStr s \<Rightarrow> Inr (PImage s)
                                 | other \<Rightarrow> Inl (TypeError ''expected str, bytes or os.PathLike object''),
      db_execute = store,
      utc_now = \<lparr>dt_year = 2025, dt_month = 6, dt_day = 1, dt_hour = 9, dt_minute = 30,
                 dt_second = 0, dt_microsecond = 0\<rparr>,
      str_of = type_name,
      float_of_str = \<lambda>s. Inl (ValueError ''could not convert string to float'')\<rparr>"


section \<open>Properties of product research\<close>

lemma process_results_dicts:
  "process_results (map PDict rs) =
     Inr (map (\<lambda>kvs. PDict [(''title'', case map_of kvs ''title'' of None \<Rightarrow> PStr ''N/A'' | Some v \<Rightarrow> v),
                              (''url'', case map_of kvs ''url'' of None \<Rightarrow> PStr ''N/A'' | Some v \<Rightarrow> v),
                              (''snippet'', case map_of kvs ''description'' of None \<Rightarrow> PStr [] | Some v \<Rightarrow> v)])
              rs)"
  by (induction rs) (simp_all add: process_result_def and_then_def)

text \<open>
  On a non-empty sequence of records the search succeeds with one entry per record, in
  order, with the defaults \<^verbatim>\<open>"N/A"\<close>, \<^verbatim>\<open>"N/A"\<close> and \<^verbatim>\<open>""\<close> for missing keys.
\<close>

lemma research_products_records:
  assumes "\<not> env_unset env ''FIRECRAWL_API_KEY''"
    and "firecrawl_search w (env_value env ''FIRECRAWL_API_KEY'') query 10
           = SearchReturns (Plain (PList (map PDict rs)))"
    and "rs \<noteq> []"
  shows "snd (research_products w env query) =
     PDict [(''results'', PList (map (\<lambda>kvs.
        PDict [(''title'', case map_of kvs ''title'' of None \<Rightarrow> PStr ''N/A'' | Some v \<Rightarrow> v),
               (''url'', case map_of kvs ''url'' of None \<Rightarrow> PStr ''N/A'' | Some v \<Rightarrow> v),
               (''snippet'', case map_of kvs ''description'' of None \<Rightarrow> PStr [] | Some v \<Rightarrow> v)])
        rs))]"
  using assms
  by (simp add: research_products_def research_body_def search_results_of_def Let_def
      process_results_dicts and_then_def)

text \<open>
  Claim C8, at the empty sequence.  The claim asks for a success with an empty
  \<^verbatim>\<open>results\<close> list when the provider returns an empty sequence of records.  The code
  tests \<^verbatim>\<open>if search_results:\<close>, which is false for the empty list, so the branch
  written for a response that is not a list is taken and the tool returns the
  "Unexpected format" failure.
\<close>

theorem research_products_empty_sequence:
  "research_products
     (w\<lparr>firecrawl_search := \<lambda>api_key q n. SearchReturns (Plain (PList []))\<rparr>)
     (Map.empty(''FIRECRAWL_API_KEY'' \<mapsto> ''fc-key'')) query
   = ([FirecrawlSearch ''fc-key'' query 10],
      PDict [(''error'', PStr ''Unexpected format from Firecrawl search.''),
             (''details'', PStr (str_of w (PList [])))])"
  by (simp add: research_products_def research_body_def search_results_of_def
      env_unset_def env_value_def Let_def)

section \<open>Configuration checks\<close>

text \<open>
  Claim C1.  Each of the nine tools that need credentials reads them first: with a
  required environment variable unset (or empty) it returns its configuration failure
  and the list of network calls it issued is empty.  The checkout needs the datastore
  variables itself and the commerce variables through the cart retrieval it calls: with
  the latter unset it returns the failure of the retrieval, again without a call.
\<close>

theorem config_missing_no_network_call:
  "(env_unset env ''FIRECRAWL_API_KEY'' \<longrightarrow>
      research_products w env query = ([], PDict [(''error'', PStr ''FIRECRAWL_API_KEY not set.'')]))
   \<and> (rye_env_missing env \<longrightarrow>
      request_amazon_product_tracking w env product_url =
        ([], PDict [(''error'', PStr ''RYE_AUTH_HEADER or RYE_SHOPPER_IP not set in environment variables.'')])
      \<and> fetch_amazon_product_details w env product_id =
        ([], PDict [(''error'', PStr ''RYE_AUTH_HEADER or RYE_SHOPPER_IP not set in environment variables.'')])
      \<and> create_amazon_cart w env product_id quantity =
        ([], PDict [(''error'', PStr ''RYE_AUTH_HEADER or RYE_SHOPPER_IP not set'')])
      \<and> get_rye_cart_details w env cart_id =
        ([], PDict [(''error'', PStr ''RYE_AUTH_HEADER or RYE_SHOPPER_IP not set'')]))
   \<and> (supabase_env_missing env \<longrightarrow>
      checkout_amazon_cart w env cart_id buyer_info =
        ([], Inr (PDict [(''error'', PStr ''Supabase URL or service role key not configured.'')]))
      \<and> list_my_purchases w env n =
        ([], PDict [(''error'', PStr ''Supabase URL or key not set in environment.'')])
      \<and> set_spending_limit w env user_identifier limit_value =
        ([], PDict [(''error'', PStr ''Supabase URL or service role key not configured.'')])
      \<and> get_spending_status w env user_identifier =
        ([], PDict [(''error'', PStr ''Supabase URL or service role key not configured.'')]))
   \<and> (\<not> supabase_env_missing env \<and> rye_env_missing env \<longrightarrow>
      checkout_amazon_cart w env cart_id buyer_info =
        ([], Inr (PDict [(''error'', PStr ''Failed to fetch cart details before checkout''),
                         (''details'', PDict [(''error'', PStr ''RYE_AUTH_HEADER or RYE_SHOPPER_IP not set'')])])))"
  by (simp add: research_products_def request_amazon_product_tracking_def
      fetch_amazon_product_details_def create_amazon_cart_def get_rye_cart_details_def
      checkout_amazon_cart_def list_my_purchases_def set_spending_limit_def
      get_spending_status_def py_get_def)

text \<open>The theorem at the empty environment and at one with the datastore variables only.\<close>

theorem config_missing_no_network_call_witness:
  "research_products (example_world PNone (\<lambda>q. db_ok PNone)) Map.empty ''kettle'' =
     ([], PDict [(''error'', PStr ''FIRECRAWL_API_KEY not set.'')])
   \<and> create_amazon_cart (example_world PNone (\<lambda>q. db_ok PNone)) Map.empty ''B00EXAMPLE'' 1 =
     ([], PDict [(''error'', PStr ''RYE_AUTH_HEADER or RYE_SHOPPER_IP not set'')])
   \<and> checkout_amazon_cart (example_world PNone (\<lambda>q. db_ok PNone)) Map.empty ''cart-1''
        (PDict [(''email'', PStr ''a@example.org'')]) =
     ([], Inr (PDict [(''error'', PStr ''Supabase URL or service role key not configured.'')]))
   \<and> checkout_amazon_cart (example_world PNone (\<lambda>q. db_ok PNone))
        (Map.empty(''SUPABASE_URL'' \<mapsto> ''https://db.example.org'',
                   ''SUPABASE_SERVICE_ROLE_KEY'' \<mapsto> ''service-role-key''))
        ''cart-1'' (PDict [(''email'', PStr ''a@example.org'')]) =
     ([], Inr (PDict [(''error'', PStr ''Failed to fetch cart details before checkout''),
                      (''details'', PDict [(''error'', PStr ''RYE_AUTH_HEADER or RYE_SHOPPER_IP not set'')])]))"
  using config_missing_no_network_call
          [where env = Map.empty and w = "example_world PNone (\<lambda>q. db_ok PNone)"
             and query = "''kettle''" and product_id = "''B00EXAMPLE''" and quantity = 1
             and cart_id = "''cart-1''" and buyer_info = "PDict [(''email'', PStr ''a@example.org'')]"]
        config_missing_no_network_call
          [where env = "Map.empty(''SUPABASE_URL'' \<mapsto> ''https://db.example.org'',
                   ''SUPABASE_SERVICE_ROLE_KEY'' \<mapsto> ''service-role-key'')"
             and w = "example_world PNone (\<lambda>q. db_ok PNone)"
             and cart_id = "''cart-1''" and buyer_info = "PDict [(''email'', PStr ''a@example.org'')]"]
  by (simp add: env_unset_def rye_env_missing_def supabase_env_missing_def)

section \<open>Exceptions at the tool boundary\<close>

text \<open>
  Claim C2, at a cart whose subtotal value is not a number.  The claim says that no tool
  lets an exception escape, the checkout included even when a value field of the fetched
  cart is not numeric.  Eight tools run inside a \<^verbatim>\<open>try\<close> whose handler catches every
  \<^verbatim>\<open>Exception\<close>, and their models return a value on every path.  In the checkout the
  \<^verbatim>\<open>try\<close> begins only at the datastore insert: the conversions
  \<^verbatim>\<open>float(... or 0)\<close>, announced by the comment "Safely extract cost fields", run
  before it.  With the provider returning an object where the subtotal value should be,
  \<^verbatim>\<open>float\<close> raises \<^verbatim>\<open>TypeError\<close> and the exception leaves the tool, after the
  cart has been fetched and before any order is inserted.
\<close>

theorem checkout_raises_on_non_numeric_value:
  "checkout_amazon_cart
     (w\<lparr>http_post := \<lambda>url headers request. PostReturns (ok_response
         (PDict [(''data'', PDict [(''getCart'', PDict [(''cart'',
            PDict [(''id'', PStr ''cart-1''),
                   (''cost'', PDict [(''subtotal'',
                      PDict [(''value'', PDict [(''amount'', PInt 1000)]),
                             (''currency'', PStr ''USD'')])])])])])]))\<rparr>)
     full_env ''cart-1'' (PDict [(''email'', PStr ''a@example.org'')])
   = ([HttpPost rye_graphql_endpoint (rye_headers full_env) (get_cart_request ''cart-1'')],
      Inl (float_type_error (PDict [(''amount'', PInt 1000)])))"
  by (simp add: checkout_amazon_cart_def supabase_env_missing_def env_unset_def full_env_def
      get_rye_cart_details_def rye_env_missing_def Let_def post_json_def ok_response_def
      get_cart_body_def and_then_def py_get_def checkout_extract_def py_or_def
      total_value_of_def cost_raw_def cost_field_def)

text \<open>
  The same happens with a string that \<^verbatim>\<open>float\<close> cannot parse, whichever exception the
  parser raises.
\<close>

lemma checkout_raises_on_unparsable_string:
  assumes "float_of_str w s = Inl e" and "s \<noteq> []"
  shows "checkout_amazon_cart
     (w\<lparr>http_post := \<lambda>url headers request. PostReturns (ok_response
         (PDict [(''data'', PDict [(''getCart'', PDict [(''cart'',
            PDict [(''id'', PStr ''cart-1''),
                   (''cost'', PDict [(''subtotal'',
                      PDict [(''value'', PStr s),
                             (''currency'', PStr ''USD'')])])])])])]))\<rparr>)
     full_env ''cart-1'' buyer_info
   = ([HttpPost rye_graphql_endpoint (rye_headers full_env) (get_cart_request ''cart-1'')],
      Inl e)"
  using assms
  by (simp add: checkout_amazon_cart_def supabase_env_missing_def env_unset_def full_env_def
      get_rye_cart_details_def rye_env_missing_def Let_def post_json_def ok_response_def
      get_cart_body_def and_then_def py_get_def checkout_extract_def py_or_def
      total_value_of_def cost_raw_def cost_field_def)

section \<open>Properties of cart creation\<close>

text \<open>Facts about \<^verbatim>\<open>.get\<close>, subscripts and the structural guard.\<close>

lemma py_get_item:
  assumes "py_get v k = Inr x" and "x \<noteq> PNone"
  shows "py_item v k = Inr x"
  using assms by (cases v) (auto simp: py_get_def split: option.splits)

lemma py_get_dict:
  assumes "py_get v k = Inr x"
  shows "is_dict v"
  using assms by (cases v) (auto simp: py_get_def)

lemma truthy_not_None: "truthy x \<Longrightarrow> x \<noteq> PNone"
  by auto

lemma empty_cart_guard_no_stores:
  assumes "py_get cart_object ''stores'' = Inr stores" and "\<not> truthy stores"
  shows "empty_cart_guard cart_object = Inr True"
  using assms by (simp add: empty_cart_guard_def or_else_def and_then_def)

lemma empty_cart_guard_first_store:
  assumes "py_get cart_object ''stores'' = Inr (PList (first_store # rest))"
    and "py_get first_store ''cartLines'' = Inr cart_lines"
  shows "empty_cart_guard cart_object = Inr (\<not> (truthy cart_lines \<and> is_list cart_lines))"
proof -
  have s: "py_item cart_object ''stores'' = Inr (PList (first_store # rest))"
    using assms(1) by (rule py_get_item) simp
  show ?thesis
  proof (cases "truthy cart_lines")
    case False
    then show ?thesis
      using assms s by (simp add: empty_cart_guard_def or_else_def and_then_def)
  next
    case True
    then have l: "py_item first_store ''cartLines'' = Inr cart_lines"
      using assms(2) py_get_item truthy_not_None by blast
    show ?thesis
      using True assms s l
      by (cases cart_lines) (simp_all add: empty_cart_guard_def or_else_def and_then_def)
  qed
qed

lemma empty_cart_guard_False:
  assumes "empty_cart_guard cart_object = Inr False"
  shows "\<exists>first_store rest line lines.
           py_get cart_object ''stores'' = Inr (PList (first_store # rest))
           \<and> py_get first_store ''cartLines'' = Inr (PList (line # lines))"
proof -
  obtain stores where g: "py_get cart_object ''stores'' = Inr stores" and t: "truthy stores"
    using assms by (auto simp: empty_cart_guard_def or_else_def and_then_def split: sum.splits if_splits)
  have i: "py_item cart_object ''stores'' = Inr stores"
    using g t py_get_item truthy_not_None by blast
  obtain first_store rest where st: "stores = PList (first_store # rest)"
    using assms g t i
    by (cases stores; cases "case stores of PList xs \<Rightarrow> xs | _ \<Rightarrow> []")
       (auto simp: empty_cart_guard_def or_else_def and_then_def split: sum.splits if_splits)
  obtain cart_lines where c: "py_get first_store ''cartLines'' = Inr cart_lines"
    using assms g i st
    by (auto simp: empty_cart_guard_def or_else_def and_then_def split: sum.splits if_splits)
  have "truthy cart_lines \<and> is_list cart_lines"
    using assms empty_cart_guard_first_store [OF g [unfolded st] c] by simp
  then obtain line lines where "cart_lines = PList (line # lines)"
    by (cases cart_lines; cases "case cart_lines of PList xs \<Rightarrow> xs | _ \<Rightarrow> []") auto
  then show ?thesis using g st c by blast
qed

lemma truthy_error_message [simp]: "truthy (PStr (c # cs))"
  by simp

lemma create_amazon_cart_posted:
  assumes "\<not> rye_env_missing env"
    and "http_post w rye_graphql_endpoint (rye_headers env) (create_cart_request product_id quantity)
           = PostReturns resp"
    and "200 \<le> resp_status resp" and "resp_status resp < 300"
    and "resp_json resp = Inr response_data"
    and "create_cart_body (Inr response_data) = Inr result"
  shows "create_amazon_cart w env product_id quantity =
           ([HttpPost rye_graphql_endpoint (rye_headers env) (create_cart_request product_id quantity)],
            result)"
  using assms by (simp add: create_amazon_cart_def post_json_def Let_def)

lemma create_cart_body_guard:
  assumes "py_get response_data ''errors'' = Inr errors" and "\<not> truthy errors"
    and "py_get_default response_data ''data'' (PDict []) = Inr data"
    and "py_get data ''createCart'' = Inr create_cart_payload" and "truthy create_cart_payload"
    and "py_get create_cart_payload ''errors'' = Inr op_errors" and "\<not> truthy op_errors"
    and "py_get create_cart_payload ''cart'' = Inr cart_object" and "truthy cart_object"
    and "py_get cart_object ''id'' = Inr cart_id" and "truthy cart_id"
  shows "create_cart_body (Inr response_data) =
           and_then (empty_cart_guard cart_object) (\<lambda>empty.
             if empty then Inr (empty_cart_failure cart_object)
             else and_then (py_get_default cart_object ''stores'' (PList [])) (\<lambda>stores.
                  and_then (py_iter stores) (\<lambda>store_list.
                  and_then (store_level_error cart_object store_list) (\<lambda>found.
                  case found of Some failure \<Rightarrow> Inr failure | None \<Rightarrow> Inr create_cart_payload))))"
  using assms
  by (simp add: create_cart_body_def and_then_def or_else_def)

text \<open>The loop over the stores returns the errors of the first store that reports any.\<close>

lemma store_level_error_first:
  assumes "\<forall>p \<in> set before. \<exists>v. py_get p ''errors'' = Inr v \<and> \<not> truthy v"
    and "py_get store ''errors'' = Inr (PList (e # es))"
  shows "store_level_error cart_object (before @ store # after)
           = Inr (Some (store_level_failure (PList (e # es)) cart_object))"
  using assms
proof (induction before)
  case Nil
  have "py_item store ''errors'' = Inr (PList (e # es))"
    using Nil.prems(2) by (rule py_get_item) simp
  then show ?case using Nil.prems(2) by (simp add: and_then_def)
next
  case (Cons p before)
  then show ?case by (auto simp: and_then_def)
qed

lemma store_level_error_None:
  assumes "store_level_error cart_object store_list = Inr None" and "store \<in> set store_list"
  shows "\<exists>v. py_get store ''errors'' = Inr v \<and> (\<not> truthy v \<or> py_len v = Inr 0)"
  using assms
proof (induction store_list)
  case Nil
  then show ?case by simp
next
  case (Cons s store_list)
  from Cons.prems(1) obtain v where v: "py_get s ''errors'' = Inr v"
    by (auto simp: and_then_def split: sum.splits)
  have item: "truthy v \<Longrightarrow> py_item s ''errors'' = Inr v"
    using py_get_item [OF v] by (cases "v = PNone") auto
  have rest: "store_level_error cart_object store_list = Inr None"
    and here: "\<not> truthy v \<or> py_len v = Inr 0"
    using Cons.prems(1) v item
    by (auto simp: and_then_def split: sum.splits if_splits)
  show ?case
  proof (cases "store = s")
    case True
    then show ?thesis using v here by blast
  next
    case False
    then show ?thesis using Cons.IH [OF rest] Cons.prems(2) by simp
  qed
qed

lemma is_failure_error_dict [simp]:
  "is_failure (PDict ((''error'', PStr s) # kvs)) = (s \<noteq> [])"
  by (simp add: is_failure_def py_get_def)

lemma is_failure_named [simp]:
  "is_failure (empty_cart_failure c)" "is_failure (store_level_failure errs c)"
  by (simp_all add: empty_cart_failure_def store_level_failure_def)

lemma store_level_error_Some:
  assumes "store_level_error cart_object store_list = Inr (Some r)"
  shows "is_failure r"
  using assms
  by (induction store_list) (auto simp: and_then_def split: sum.splits if_splits)

text \<open>
  A result that is not a failure can only come from the last \<^verbatim>\<open>return\<close>: every
  check before it has passed.
\<close>

lemma create_cart_body_envelope:
  assumes "create_cart_body (Inr response_data) = Inr result" and "\<not> is_failure result"
  shows "\<exists>errors data create_cart_payload op_errors cart_object cart_id.
           py_get response_data ''errors'' = Inr errors \<and> \<not> truthy errors
           \<and> py_get_default response_data ''data'' (PDict []) = Inr data
           \<and> py_get data ''createCart'' = Inr create_cart_payload \<and> truthy create_cart_payload
           \<and> py_get create_cart_payload ''errors'' = Inr op_errors \<and> \<not> truthy op_errors
           \<and> py_get create_cart_payload ''cart'' = Inr cart_object \<and> truthy cart_object
           \<and> py_get cart_object ''id'' = Inr cart_id \<and> truthy cart_id"
  using assms
  by (auto simp: create_cart_body_def and_then_def or_else_def split: sum.splits if_splits)

lemma create_cart_body_success:
  assumes "create_cart_body (Inr response_data) = Inr result" and "\<not> is_failure result"
  shows "\<exists>data create_cart_payload cart_object first_store rest line lines.
           py_get_default response_data ''data'' (PDict []) = Inr data
           \<and> py_get data ''createCart'' = Inr create_cart_payload
           \<and> py_get create_cart_payload ''cart'' = Inr cart_object
           \<and> py_get cart_object ''stores'' = Inr (PList (first_store # rest))
           \<and> py_get first_store ''cartLines'' = Inr (PList (line # lines))
           \<and> store_level_error cart_object (first_store # rest) = Inr None
           \<and> result = create_cart_payload"
proof -
  from create_cart_body_envelope [OF assms]
  obtain errors data create_cart_payload op_errors cart_object cart_id where
    h: "py_get response_data ''errors'' = Inr errors" "\<not> truthy errors"
       "py_get_default response_data ''data'' (PDict []) = Inr data"
       "py_get data ''createCart'' = Inr create_cart_payload" "truthy create_cart_payload"
       "py_get create_cart_payload ''errors'' = Inr op_errors" "\<not> truthy op_errors"
       "py_get create_cart_payload ''cart'' = Inr cart_object" "truthy cart_object"
       "py_get cart_object ''id'' = Inr cart_id" "truthy cart_id"
    by blast
  note body = create_cart_body_guard [OF h]
  have guard: "empty_cart_guard cart_object = Inr False"
    using assms body by (auto simp: and_then_def split: sum.splits if_splits)
  from empty_cart_guard_False [OF guard] obtain first_store rest line lines where
    s: "py_get cart_object ''stores'' = Inr (PList (first_store # rest))"
       "py_get first_store ''cartLines'' = Inr (PList (line # lines))"
    by blast
  have d: "py_get_default cart_object ''stores'' (PList []) = Inr (PList (first_store # rest))"
    using s(1) by (cases cart_object) (auto simp: py_get_def split: option.splits)
  have "store_level_error cart_object (first_store # rest) = Inr None \<and> result = create_cart_payload"
    using assms body guard d
    by (auto simp: and_then_def simp del: store_level_error.simps
        split: sum.splits option.splits dest: store_level_error_Some)
  then show ?thesis using h s by blast
qed

lemma create_amazon_cart_result:
  assumes "\<not> rye_env_missing env"
    and "http_post w rye_graphql_endpoint (rye_headers env) (create_cart_request product_id quantity)
           = PostReturns resp"
    and "200 \<le> resp_status resp" and "resp_status resp < 300"
    and "resp_json resp = Inr response_data"
  shows "snd (create_amazon_cart w env product_id quantity) =
           (case create_cart_body (Inr response_data) of
              Inr result \<Rightarrow> result
            | Inl (HTTPStatusError msg code body_text) \<Rightarrow>
                PDict [(''error'', PStr (''HTTP error during cart creation: '' @ show_nat code)),
                       (''details'', PStr body_text)]
            | Inl e \<Rightarrow>
                PDict [(''error'', PStr (''An unexpected error occurred during cart creation: ''
                                         @ exn_str e))])"
  using assms by (simp add: create_amazon_cart_def post_json_def Let_def)

lemma create_amazon_cart_not_failure:
  assumes "\<not> rye_env_missing env"
    and "http_post w rye_graphql_endpoint (rye_headers env) (create_cart_request product_id quantity)
           = PostReturns resp"
    and "200 \<le> resp_status resp" and "resp_status resp < 300"
    and "resp_json resp = Inr response_data"
    and "\<not> is_failure (snd (create_amazon_cart w env product_id quantity))"
  shows "create_cart_body (Inr response_data) = Inr (snd (create_amazon_cart w env product_id quantity))"
  using assms(6) unfolding create_amazon_cart_result [OF assms(1-5)]
  by (auto split: sum.splits exn.splits)

text \<open>
  Claim C5.  The provider answers with a 2xx status and a JSON body.  When the body
  carries no top-level and no operation-level errors and \<^verbatim>\<open>createCart.cart\<close> has an
  id, but the cart's \<^verbatim>\<open>stores\<close> list is empty, or the \<^verbatim>\<open>cartLines\<close> list of
  its first store is, the tool returns the "empty cart" failure.  Conversely, whenever the
  result is not a failure it is the \<^verbatim>\<open>createCart\<close> payload itself, and then the
  stores list is non-empty, the first store has a non-empty \<^verbatim>\<open>cartLines\<close> list and the
  loop over the stores found no store-level error.
\<close>

theorem create_amazon_cart_empty_cart_is_failure:
  assumes "\<not> rye_env_missing env"
    and "http_post w rye_graphql_endpoint (rye_headers env) (create_cart_request product_id quantity)
           = PostReturns resp"
    and "200 \<le> resp_status resp" and "resp_status resp < 300"
    and "resp_json resp = Inr response_data"
  shows "(py_get response_data ''errors'' = Inr errors \<and> \<not> truthy errors
          \<and> py_get_default response_data ''data'' (PDict []) = Inr data
          \<and> py_get data ''createCart'' = Inr create_cart_payload \<and> truthy create_cart_payload
          \<and> py_get create_cart_payload ''errors'' = Inr op_errors \<and> \<not> truthy op_errors
          \<and> py_get create_cart_payload ''cart'' = Inr cart_object \<and> truthy cart_object
          \<and> py_get cart_object ''id'' = Inr cart_id \<and> truthy cart_id
          \<and> (py_get cart_object ''stores'' = Inr (PList [])
               \<or> py_get cart_object ''stores'' = Inr (PList (first_store # rest))
                  \<and> py_get first_store ''cartLines'' = Inr (PList []))
          \<longrightarrow> create_amazon_cart w env product_id quantity =
                ([HttpPost rye_graphql_endpoint (rye_headers env) (create_cart_request product_id quantity)],
                 empty_cart_failure cart_object))
       \<and> (\<not> is_failure (snd (create_amazon_cart w env product_id quantity))
          \<longrightarrow> (\<exists>data' payload cart first others line lines.
                 py_get_default response_data ''data'' (PDict []) = Inr data'
                 \<and> py_get data' ''createCart'' = Inr payload
                 \<and> py_get payload ''cart'' = Inr cart
                 \<and> py_get cart ''stores'' = Inr (PList (first # others))
                 \<and> py_get first ''cartLines'' = Inr (PList (line # lines))
                 \<and> store_level_error cart (first # others) = Inr None
                 \<and> snd (create_amazon_cart w env product_id quantity) = payload))"
proof (intro conjI impI)
  assume h: "py_get response_data ''errors'' = Inr errors \<and> \<not> truthy errors
          \<and> py_get_default response_data ''data'' (PDict []) = Inr data
          \<and> py_get data ''createCart'' = Inr create_cart_payload \<and> truthy create_cart_payload
          \<and> py_get create_cart_payload ''errors'' = Inr op_errors \<and> \<not> truthy op_errors
          \<and> py_get create_cart_payload ''cart'' = Inr cart_object \<and> truthy cart_object
          \<and> py_get cart_object ''id'' = Inr cart_id \<and> truthy cart_id
          \<and> (py_get cart_object ''stores'' = Inr (PList [])
               \<or> py_get cart_object ''stores'' = Inr (PList (first_store # rest))
                  \<and> py_get first_store ''cartLines'' = Inr (PList []))"
  then have guard: "empty_cart_guard cart_object = Inr True"
    using empty_cart_guard_no_stores [of cart_object "PList []"]
      empty_cart_guard_first_store [of cart_object first_store rest "PList []"]
    by auto
  have "create_cart_body (Inr response_data) = Inr (empty_cart_failure cart_object)"
    using h guard create_cart_body_guard [of response_data errors data create_cart_payload
        op_errors cart_object cart_id]
    by (simp add: and_then_def)
  then show "create_amazon_cart w env product_id quantity =
                ([HttpPost rye_graphql_endpoint (rye_headers env) (create_cart_request product_id quantity)],
                 empty_cart_failure cart_object)"
    using assms by (rule create_amazon_cart_posted [rotated -1])
next
  assume "\<not> is_failure (snd (create_amazon_cart w env product_id quantity))"
  then show "\<exists>data' payload cart first others line lines.
                 py_get_default response_data ''data'' (PDict []) = Inr data'
                 \<and> py_get data' ''createCart'' = Inr payload
                 \<and> py_get payload ''cart'' = Inr cart
                 \<and> py_get cart ''stores'' = Inr (PList (first # others))
                 \<and> py_get first ''cartLines'' = Inr (PList (line # lines))
                 \<and> store_level_error cart (first # others) = Inr None
                 \<and> snd (create_amazon_cart w env product_id quantity) = payload"
    using create_cart_body_success [OF create_amazon_cart_not_failure [OF assms]] by blast
qed

text \<open>The theorem at a response whose cart has an id and an empty \<^verbatim>\<open>stores\<close> list.\<close>

theorem create_amazon_cart_empty_cart_is_failure_witness:
  "create_amazon_cart
     (example_world
        (PDict [(''data'', PDict [(''createCart'',
           PDict [(''cart'', PDict [(''id'', PStr ''cart-1''), (''stores'', PList [])]),
                  (''errors'', PList [])])])])
        (\<lambda>q. db_ok PNone))
     full_env ''B00EXAMPLE'' 1
   = ([HttpPost rye_graphql_endpoint (rye_headers full_env) (create_cart_request ''B00EXAMPLE'' 1)],
      empty_cart_failure (PDict [(''id'', PStr ''cart-1''), (''stores'', PList [])]))"
  using create_amazon_cart_empty_cart_is_failure
    [where env = full_env and product_id = "''B00EXAMPLE''" and quantity = 1
       and w = "example_world
        (PDict [(''data'', PDict [(''createCart'',
           PDict [(''cart'', PDict [(''id'', PStr ''cart-1''), (''stores'', PList [])]),
                  (''errors'', PList [])])])])
        (\<lambda>q. db_ok PNone)"
       and resp = "ok_response
        (PDict [(''data'', PDict [(''createCart'',
           PDict [(''cart'', PDict [(''id'', PStr ''cart-1''), (''stores'', PList [])]),
                  (''errors'', PList [])])])])"
       and response_data = "PDict [(''data'', PDict [(''createCart'',
           PDict [(''cart'', PDict [(''id'', PStr ''cart-1''), (''stores'', PList [])]),
                  (''errors'', PList [])])])]"
       and errors = PNone
       and data = "PDict [(''createCart'',
           PDict [(''cart'', PDict [(''id'', PStr ''cart-1''), (''stores'', PList [])]),
                  (''errors'', PList [])])]"
       and create_cart_payload = "PDict [(''cart'', PDict [(''id'', PStr ''cart-1''), (''stores'', PList [])]),
                  (''errors'', PList [])]"
       and op_errors = "PList []"
       and cart_object = "PDict [(''id'', PStr ''cart-1''), (''stores'', PList [])]"
       and cart_id = "PStr ''cart-1''"]
  by (simp add: example_world_def full_env_def rye_env_missing_def env_unset_def ok_response_def
      py_get_def)

text \<open>
  Claim C9.  The structural guard looks at the first store only.  When the first store
  of the created cart has a \<^verbatim>\<open>cartLines\<close> entry that is missing, null or empty, the
  tool returns a failure whatever the later stores \<open>rest\<close> contain; and when the
  envelope carries no errors and the cart has an id, that failure is the "empty cart"
  one.
\<close>

theorem create_amazon_cart_first_store_only:
  assumes "\<not> rye_env_missing env"
    and "http_post w rye_graphql_endpoint (rye_headers env) (create_cart_request product_id quantity)
           = PostReturns resp"
    and "200 \<le> resp_status resp" and "resp_status resp < 300"
    and "resp_json resp = Inr response_data"
    and "py_get_default response_data ''data'' (PDict []) = Inr data"
    and "py_get data ''createCart'' = Inr create_cart_payload"
    and "py_get create_cart_payload ''cart'' = Inr cart_object"
    and "py_get cart_object ''stores'' = Inr (PList (first_store # rest))"
    and "py_get first_store ''cartLines'' = Inr cart_lines"
    and "\<not> truthy cart_lines"
  shows "is_failure (snd (create_amazon_cart w env product_id quantity))
     \<and> (py_get response_data ''errors'' = Inr errors \<and> \<not> truthy errors
        \<and> py_get create_cart_payload ''errors'' = Inr op_errors \<and> \<not> truthy op_errors
        \<and> py_get cart_object ''id'' = Inr cart_id \<and> truthy cart_id
        \<longrightarrow> snd (create_amazon_cart w env product_id quantity) = empty_cart_failure cart_object)"
proof -
  have guard: "empty_cart_guard cart_object = Inr True"
    using empty_cart_guard_first_store [OF assms(9,10)] assms(11) by simp
  have "\<not> \<not> is_failure (snd (create_amazon_cart w env product_id quantity))"
  proof
    assume n: "\<not> is_failure (snd (create_amazon_cart w env product_id quantity))"
    from create_cart_body_success [OF create_amazon_cart_not_failure [OF assms(1-5) n] n]
    obtain data' payload cart first others line lines where
      s: "py_get_default response_data ''data'' (PDict []) = Inr data'"
         "py_get data' ''createCart'' = Inr payload"
         "py_get payload ''cart'' = Inr cart"
         "py_get cart ''stores'' = Inr (PList (first # others))"
         "py_get first ''cartLines'' = Inr (PList (line # lines))"
      by blast
    then have "cart = cart_object" "first = first_store"
      using assms(6-9) by auto
    then show False using s(5) assms(10,11) by auto
  qed
  moreover have "py_get response_data ''errors'' = Inr errors \<and> \<not> truthy errors
        \<and> py_get create_cart_payload ''errors'' = Inr op_errors \<and> \<not> truthy op_errors
        \<and> py_get cart_object ''id'' = Inr cart_id \<and> truthy cart_id
        \<longrightarrow> snd (create_amazon_cart w env product_id quantity) = empty_cart_failure cart_object"
  proof
    assume h: "py_get response_data ''errors'' = Inr errors \<and> \<not> truthy errors
        \<and> py_get create_cart_payload ''errors'' = Inr op_errors \<and> \<not> truthy op_errors
        \<and> py_get cart_object ''id'' = Inr cart_id \<and> truthy cart_id"
    have c: "truthy cart_object" "truthy create_cart_payload"
      using h assms(8) by (cases cart_object; cases create_cart_payload; auto simp: py_get_def)+
    have "create_cart_body (Inr response_data) = Inr (empty_cart_failure cart_object)"
      using h c guard assms(6-8) create_cart_body_guard [of response_data errors data
          create_cart_payload op_errors cart_object cart_id]
      by (simp add: and_then_def)
    then show "snd (create_amazon_cart w env product_id quantity) = empty_cart_failure cart_object"
      using create_amazon_cart_posted [OF assms(1-5)] by simp
  qed
  ultimately show ?thesis by blast
qed

text \<open>The theorem at a cart whose first store is empty and whose second store is populated.\<close>

theorem create_amazon_cart_first_store_only_witness:
  "create_amazon_cart
     (example_world
        (PDict [(''data'', PDict [(''createCart'',
           PDict [(''cart'', PDict [(''id'', PStr ''cart-1''),
                    (''stores'', PList [PDict [(''cartLines'', PList [])],
                                        PDict [(''cartLines'', PList [PDict [(''quantity'', PInt 1)]])]])]),
                  (''errors'', PList [])])])])
        (\<lambda>q. db_ok PNone))
     full_env ''B00EXAMPLE'' 1
   = ([HttpPost rye_graphql_endpoint (rye_headers full_env) (create_cart_request ''B00EXAMPLE'' 1)],
      empty_cart_failure (PDict [(''id'', PStr ''cart-1''),
                    (''stores'', PList [PDict [(''cartLines'', PList [])],
                                        PDict [(''cartLines'', PList [PDict [(''quantity'', PInt 1)]])]])]))"
proof -
  let ?cart = "PDict [(''id'', PStr ''cart-1''),
                    (''stores'', PList [PDict [(''cartLines'', PList [])],
                                        PDict [(''cartLines'', PList [PDict [(''quantity'', PInt 1)]])]])]"
  let ?payload = "PDict [(''cart'', ?cart), (''errors'', PList [])]"
  let ?data = "PDict [(''createCart'', ?payload)]"
  let ?rd = "PDict [(''data'', ?data)]"
  let ?w = "example_world ?rd (\<lambda>q. db_ok PNone)"
  have "snd (create_amazon_cart ?w full_env ''B00EXAMPLE'' 1) = empty_cart_failure ?cart"
    using create_amazon_cart_first_store_only
      [where env = full_env and product_id = "''B00EXAMPLE''" and quantity = 1 and w = ?w
         and resp = "ok_response ?rd" and response_data = ?rd and data = ?data
         and create_cart_payload = ?payload and cart_object = ?cart
         and first_store = "PDict [(''cartLines'', PList [])]"
         and rest = "[PDict [(''cartLines'', PList [PDict [(''quantity'', PInt 1)]])]]"
         and cart_lines = "PList []" and errors = PNone and op_errors = "PList []"
         and cart_id = "PStr ''cart-1''"]
    by (simp add: example_world_def full_env_def rye_env_missing_def env_unset_def ok_response_def
        py_get_def)
  moreover have "fst (create_amazon_cart ?w full_env ''B00EXAMPLE'' 1)
      = [HttpPost rye_graphql_endpoint (rye_headers full_env) (create_cart_request ''B00EXAMPLE'' 1)]"
    by (simp add: create_amazon_cart_def full_env_def rye_env_missing_def env_unset_def Let_def)
  ultimately show ?thesis by (simp add: prod_eq_iff)
qed

text \<open>
  Claim C6 as stated fails when the store that reports errors is the first one and its
  \<^verbatim>\<open>cartLines\<close> list is empty: the structural guard comes first, and the failure
  returned is the "empty cart" one, whose \<^verbatim>\<open>details\<close> are a fixed sentence and not
  the errors of the store.
\<close>

theorem create_amazon_cart_store_errors_counterexample:
  "create_amazon_cart
     (example_world
        (PDict [(''data'', PDict [(''createCart'',
           PDict [(''cart'', PDict [(''id'', PStr ''cart-1''),
                    (''stores'', PList [PDict [(''cartLines'', PList []),
                                               (''errors'', PList [PDict [(''code'', PStr ''PRODUCT_UNAVAILABLE'')]])]])]),
                  (''errors'', PList [])])])])
        (\<lambda>q. db_ok PNone))
     full_env ''B00EXAMPLE'' 1
   = ([HttpPost rye_graphql_endpoint (rye_headers full_env) (create_cart_request ''B00EXAMPLE'' 1)],
      PDict [(''error'', PStr ''Cart created but appears empty or item not added successfully.''),
             (''details'', PStr ''No stores or cartLines found in the response, or they are empty.''),
             (''cart_details_received'',
              PDict [(''id'', PStr ''cart-1''),
                     (''stores'', PList [PDict [(''cartLines'', PList []),
                                                (''errors'', PList [PDict [(''code'', PStr ''PRODUCT_UNAVAILABLE'')]])]])])])"
  by (simp add: create_amazon_cart_def example_world_def full_env_def rye_env_missing_def
      env_unset_def ok_response_def post_json_def Let_def create_cart_body_def and_then_def
      or_else_def py_get_def empty_cart_guard_def empty_cart_failure_def)

text \<open>
  Claim C6, as amended.  When the envelope carries no errors, the cart has an id and its
  first store has a non-empty \<^verbatim>\<open>cartLines\<close> list (the structural guard passes), and
  a store reports a non-empty \<^verbatim>\<open>errors\<close> array while the stores before it report
  none, the tool returns the store-level failure whose \<^verbatim>\<open>details\<close> are the errors of
  that store, whether or not that store's own \<^verbatim>\<open>cartLines\<close> list is populated.
\<close>

theorem create_amazon_cart_store_level_errors:
  assumes "\<not> rye_env_missing env"
    and "http_post w rye_graphql_endpoint (rye_headers env) (create_cart_request product_id quantity)
           = PostReturns resp"
    and "200 \<le> resp_status resp" and "resp_status resp < 300"
    and "resp_json resp = Inr response_data"
    and "py_get response_data ''errors'' = Inr errors" and "\<not> truthy errors"
    and "py_get_default response_data ''data'' (PDict []) = Inr data"
    and "py_get data ''createCart'' = Inr create_cart_payload" and "truthy create_cart_payload"
    and "py_get create_cart_payload ''errors'' = Inr op_errors" and "\<not> truthy op_errors"
    and "py_get create_cart_payload ''cart'' = Inr cart_object" and "truthy cart_object"
    and "py_get cart_object ''id'' = Inr cart_id" and "truthy cart_id"
    and "py_get cart_object ''stores'' = Inr (PList (first_store # rest))"
    and "py_get first_store ''cartLines'' = Inr (PList (line # lines))"
    and "first_store # rest = before @ store # after"
    and "\<forall>p \<in> set before. \<exists>v. py_get p ''errors'' = Inr v \<and> \<not> truthy v"
    and "py_get store ''errors'' = Inr (PList (e # es))"
  shows "create_amazon_cart w env product_id quantity =
           ([HttpPost rye_graphql_endpoint (rye_headers env) (create_cart_request product_id quantity)],
            store_level_failure (PList (e # es)) cart_object)"
proof -
  have guard: "empty_cart_guard cart_object = Inr False"
    using empty_cart_guard_first_store [OF assms(17,18)] by simp
  have d: "py_get_default cart_object ''stores'' (PList []) = Inr (PList (first_store # rest))"
    using assms(17) by (cases cart_object) (auto simp: py_get_def split: option.splits)
  have loop: "store_level_error cart_object (first_store # rest)
                = Inr (Some (store_level_failure (PList (e # es)) cart_object))"
    unfolding assms(19) using assms(20,21) by (rule store_level_error_first)
  have "create_cart_body (Inr response_data)
          = Inr (store_level_failure (PList (e # es)) cart_object)"
    unfolding create_cart_body_guard [OF assms(6-16)]
    using guard d loop by (simp add: and_then_def del: store_level_error.simps)
  then show ?thesis
    using create_amazon_cart_posted [OF assms(1-5)] by simp
qed

text \<open>
  The theorem at a cart of two populated stores, the second of which reports an error.
\<close>

theorem create_amazon_cart_store_level_errors_witness:
  "create_amazon_cart
     (example_world
        (PDict [(''data'', PDict [(''createCart'',
           PDict [(''cart'', PDict [(''id'', PStr ''cart-1''),
                    (''stores'', PList [PDict [(''cartLines'', PList [PDict [(''quantity'', PInt 1)]]),
                                               (''errors'', PList [])],
                                        PDict [(''cartLines'', PList [PDict [(''quantity'', PInt 2)]]),
                                               (''errors'', PList [PDict [(''code'', PStr ''PRODUCT_UNAVAILABLE'')]])]])]),
                  (''errors'', PList [])])])])
        (\<lambda>q. db_ok PNone))
     full_env ''B00EXAMPLE'' 1
   = ([HttpPost rye_graphql_endpoint (rye_headers full_env) (create_cart_request ''B00EXAMPLE'' 1)],
      store_level_failure (PList [PDict [(''code'', PStr ''PRODUCT_UNAVAILABLE'')]])
        (PDict [(''id'', PStr ''cart-1''),
                    (''stores'', PList [PDict [(''cartLines'', PList [PDict [(''quantity'', PInt 1)]]),
                                               (''errors'', PList [])],
                                        PDict [(''cartLines'', PList [PDict [(''quantity'', PInt 2)]]),
                                               (''errors'', PList [PDict [(''code'', PStr ''PRODUCT_UNAVAILABLE'')]])]])]))"
proof -
  let ?s1 = "PDict [(''cartLines'', PList [PDict [(''quantity'', PInt 1)]]), (''errors'', PList [])]"
  let ?s2 = "PDict [(''cartLines'', PList [PDict [(''quantity'', PInt 2)]]),
                    (''errors'', PList [PDict [(''code'', PStr ''PRODUCT_UNAVAILABLE'')]])]"
  let ?cart = "PDict [(''id'', PStr ''cart-1''), (''stores'', PList [?s1, ?s2])]"
  let ?payload = "PDict [(''cart'', ?cart), (''errors'', PList [])]"
  let ?data = "PDict [(''createCart'', ?payload)]"
  let ?rd = "PDict [(''data'', ?data)]"
  let ?w = "example_world ?rd (\<lambda>q. db_ok PNone)"
  have env: "\<not> rye_env_missing full_env"
    by (simp add: full_env_def rye_env_missing_def env_unset_def)
  have post: "http_post ?w rye_graphql_endpoint (rye_headers full_env)
                (create_cart_request ''B00EXAMPLE'' 1) = PostReturns (ok_response ?rd)"
    by (simp add: example_world_def)
  have st: "200 \<le> resp_status (ok_response ?rd)" "resp_status (ok_response ?rd) < 300"
    and js: "resp_json (ok_response ?rd) = Inr ?rd"
    by (simp_all add: ok_response_def)
  have before: "\<forall>p \<in> set [?s1]. \<exists>v. py_get p ''errors'' = Inr v \<and> \<not> truthy v"
    by (simp add: py_get_def)
  show ?thesis
    by (rule create_amazon_cart_store_level_errors
          [OF env post st js, where errors = PNone and data = ?data and create_cart_payload = ?payload
             and op_errors = "PList []" and cart_object = ?cart and cart_id = "PStr ''cart-1''"
             and first_store = ?s1 and rest = "[?s2]" and before = "[?s1]" and store = ?s2
             and after = "[]" and line = "PDict [(''quantity'', PInt 1)]" and lines = "[]",
           OF _ _ _ _ _ _ _ _ _ _ _ _ _ _ before])
       (simp_all add: py_get_def)
qed

section \<open>Properties of the float model\<close>

text \<open>
  Rounding is exact on the integers below \<open>2\<^sup>5\<^sup>3\<close>: conversions and sums of amounts in
  minor units lose nothing, and only the final division by 100 rounds.
\<close>

lemma round_half_even_of_int [simp]: "round_half_even (of_int k) = k"
  by (simp add: round_half_even_def)

lemma ilog2_of_int:
  assumes "0 < m"
  shows "ilog2 (of_int m) = bitlen m - 1"
proof -
  have b: "1 \<le> bitlen m"
    using assms by (simp add: bitlen_alt_def)
  have "(2::int) ^ nat (bitlen m - 1) \<le> m"
    using bitlen_bounds [OF assms] by simp
  then have "(of_int ((2::int) ^ nat (bitlen m - 1)) :: rat) \<le> of_int m"
    by (simp only: of_int_le_iff)
  then have "power_int (2::rat) (bitlen m - 1) \<le> of_int m"
    using b by (simp add: power_int_def)
  moreover have "bitlen 1 = 1"
    by (simp add: bitlen_alt_def)
  ultimately show ?thesis
    by (simp add: ilog2_def)
qed

lemma round64_of_int:
  assumes "\<bar>n\<bar> < 2 ^ 53"
  shows "round64 (of_int n) = Finite (of_int n)"
proof (cases "n = 0")
  case True
  then show ?thesis by (simp add: round64_def)
next
  case False
  define d where "d = bitlen \<bar>n\<bar> - 1"
  define k where "k = nat (52 - d)"
  have pos: "0 < \<bar>n\<bar>" using False by simp
  have d0: "0 \<le> d"
    using pos by (simp add: d_def bitlen_alt_def)
  have "bitlen \<bar>n\<bar> \<le> 53"
    using assms by (simp add: bitlen_le_iff_power)
  then have d52: "d \<le> 52" by (simp add: d_def)
  have e: "max (ilog2 \<bar>of_int n\<bar>) (- 1022) = d"
    using ilog2_of_int [OF pos] d0 by (simp add: d_def flip: of_int_abs)
  have "d - 52 = - int k"
    using d52 by (simp add: k_def)
  then have "power_int (2::rat) (d - 52) = inverse (power_int 2 (int k))"
    by (simp only: power_int_minus)
  then have u: "power_int (2::rat) (d - 52) = inverse (2 ^ k)"
    by (simp only: power_int_of_nat)
  have "(of_int n :: rat) / inverse (2 ^ k) = of_int (n * 2 ^ k)"
    by (simp add: field_simps)
  then have r: "of_int (round_half_even (of_int n / inverse (2 ^ k))) * inverse (2 ^ k)
                  = (of_int n :: rat)"
    by (simp only: round_half_even_of_int) (simp add: field_simps)
  have "(of_int \<bar>n\<bar> :: rat) < of_int (2 ^ 53)"
    using assms by (simp only: of_int_less_iff)
  then have small: "\<not> (2::rat) ^ 1024 \<le> \<bar>of_int n\<bar>"
    by simp
  show ?thesis
    using False small by (simp add: round64_def Let_def e u r)
qed

lemma py_float_int:
  assumes "\<bar>n\<bar> < 2 ^ 53"
  shows "py_float w (PInt n) = Inr (Finite (of_int n))"
  using round64_of_int [OF assms] by simp

lemma fadd_int:
  assumes "\<bar>a + b\<bar> < 2 ^ 53"
  shows "fadd (Finite (of_int a)) (Finite (of_int b)) = Finite (of_int (a + b))"
  using round64_of_int [OF assms] by simp

lemma round64_numeral:
  assumes "numeral k < (2::int) ^ 53"
  shows "round64 (numeral k) = Finite (numeral k)"
  using round64_of_int [of "numeral k"] assms by simp

lemma round64_zero [simp]: "round64 0 = Finite 0"
  by (simp add: round64_def)

section \<open>Properties of the checkout\<close>

text \<open>
  Once the cart is fetched and the extraction of its cost and items has not raised, the
  checkout issues exactly one insert, of the order row built from the extraction, and its
  result reports what the datastore answered.
\<close>

lemma checkout_amazon_cart_inserts:
  assumes "\<not> supabase_env_missing env"
    and "get_rye_cart_details w env cart_id = (fetch_calls, cart_details)"
    and "is_dict cart_details" and "\<not> is_failure cart_details"
    and "checkout_extract w cart_details = Inr (total_value, total_currency, items_snapshot)"
    and "create_client w (env_value env ''SUPABASE_URL'') (env_value env ''SUPABASE_SERVICE_ROLE_KEY'')
           = None"
    and "py_get buyer_info ''email'' = Inr email"
    and "order_data = order_data_of cart_id email total_value total_currency items_snapshot"
  shows "checkout_amazon_cart w env cart_id buyer_info =
           (fetch_calls @ [DbExecute (InsertOrder order_data)],
            Inr (case db_execute w (InsertOrder order_data) of
                   ExecuteRaises e \<Rightarrow> PDict [(''error'', PStr (''Checkout failed: '' @ exn_str e))]
                 | ExecuteReturns resp \<Rightarrow>
                     (case db_error resp of
                        Some err \<Rightarrow>
                          PDict [(''error'', PStr ''Supabase insert failed''),
                                 (''details'', error_details err),
                                 (''order_data'', order_data)]
                      | None \<Rightarrow>
                          PDict [(''status'', PStr ''success''),
                                 (''order_data'', order_data),
                                 (''supabase_insert'', db_data resp)])))"
proof -
  obtain kvs where d: "cart_details = PDict kvs"
    using assms(3) by (cases cart_details) auto
  have e: "py_get cart_details ''error'' = Inr (case map_of kvs ''error'' of None \<Rightarrow> PNone | Some v \<Rightarrow> v)"
    "\<not> truthy (case map_of kvs ''error'' of None \<Rightarrow> PNone | Some v \<Rightarrow> v)"
    using assms(4) d by (auto simp: is_failure_def py_get_def)
  show ?thesis
    unfolding assms(8)
    using assms(1,2,3,5,6,7) e
    by (simp add: checkout_amazon_cart_def checkout_insert_def Let_def)
qed

lemma checkout_extract_eq:
  assumes "py_get cart_details ''cost'' = Inr cost"
    and "cost_info = py_or cost (PDict [])"
    and "cost_field cost_info ''subtotal'' ''value'' = Inr subtotal_value"
    and "cost_field cost_info ''shipping'' ''value'' = Inr shipping_value"
    and "cost_field cost_info ''tax'' ''value'' = Inr tax_value"
    and "py_float w (py_or subtotal_value (PInt 0)) = Inr subtotal_raw"
    and "py_float w (py_or shipping_value (PInt 0)) = Inr shipping_raw"
    and "py_float w (py_or tax_value (PInt 0)) = Inr tax_raw"
    and "cost_field cost_info ''subtotal'' ''currency'' = Inr subtotal_currency"
    and "cost_field cost_info ''shipping'' ''currency'' = Inr shipping_currency"
    and "cost_field cost_info ''tax'' ''currency'' = Inr tax_currency"
    and "items_snapshot_of cart_details = Inr items_snapshot"
  shows "checkout_extract w cart_details =
           Inr (fdiv_finite (fadd (fadd subtotal_raw shipping_raw) tax_raw) 100,
                (if truthy subtotal_currency then subtotal_currency
                 else if truthy shipping_currency then shipping_currency
                 else tax_currency),
                items_snapshot)"
  using assms(1,3-12) unfolding assms(2)
  by (simp add: checkout_extract_def total_value_of_def total_currency_of_def cost_raw_def
      and_then_def Let_def)

text \<open>The example cart: what the retrieval returns for it and what the checkout reads in it.\<close>

lemma example_cart_fetched:
  "get_rye_cart_details (example_world (get_cart_response (example_cart a b c)) store) full_env cart_id
     = ([HttpPost rye_graphql_endpoint (rye_headers full_env) (get_cart_request cart_id)],
        example_cart a b c)"
  by (simp add: get_rye_cart_details_def example_world_def full_env_def rye_env_missing_def
      env_unset_def ok_response_def post_json_def Let_def get_cart_body_def and_then_def
      py_get_def get_cart_response_def example_cart_def)

lemma example_cart_items:
  "items_snapshot_of (example_cart a b c) = Inr example_items"
  by (simp add: items_snapshot_of_def example_cart_def example_lines_def example_items_def
      snapshot_line_def and_then_def py_get_def py_or_def money_def Let_def)

lemma example_cart_cost:
  "py_get (example_cart a b c) ''cost''
     = Inr (PDict [(''subtotal'', a), (''shipping'', b), (''tax'', c)])"
  "is_dict (example_cart a b c)" "\<not> is_failure (example_cart a b c)"
  by (simp_all add: example_cart_def py_get_def is_failure_def)

lemma money_field:
  "cost_field (PDict [(''subtotal'', money a ca), (''shipping'', money b cb), (''tax'', money c cc)])
     ''subtotal'' ''value'' = Inr (PInt a)"
  "cost_field (PDict [(''subtotal'', money a ca), (''shipping'', money b cb), (''tax'', money c cc)])
     ''shipping'' ''value'' = Inr (PInt b)"
  "cost_field (PDict [(''subtotal'', money a ca), (''shipping'', money b cb), (''tax'', money c cc)])
     ''tax'' ''value'' = Inr (PInt c)"
  "cost_field (PDict [(''subtotal'', money a ca), (''shipping'', money b cb), (''tax'', money c cc)])
     ''subtotal'' ''currency'' = Inr (PStr ca)"
  "cost_field (PDict [(''subtotal'', money a ca), (''shipping'', money b cb), (''tax'', money c cc)])
     ''shipping'' ''currency'' = Inr (PStr cb)"
  "cost_field (PDict [(''subtotal'', money a ca), (''shipping'', money b cb), (''tax'', money c cc)])
     ''tax'' ''currency'' = Inr (PStr cc)"
  by (simp_all add: cost_field_def money_def and_then_def py_get_def py_or_def)

text \<open>
  Claim C3 as stated fails on the currency.  The claim takes the first currency that is
  not null; the code chains the three with \<^verbatim>\<open>or\<close>, which takes the first that is
  truthy.  With the subtotal's currency the empty string (not null) and the shipping's
  \<^verbatim>\<open>"USD"\<close>, the row that is inserted carries \<^verbatim>\<open>"USD"\<close>.
\<close>

theorem checkout_currency_counterexample:
  "fst (checkout_amazon_cart
          (example_world
             (get_cart_response (example_cart (money 1000 []) (money 500 ''USD'') (money 0 ''USD'')))
             (\<lambda>q. db_ok PNone))
          full_env ''cart-1'' (PDict [(''email'', PStr ''a@example.org'')]))
   = [HttpPost rye_graphql_endpoint (rye_headers full_env) (get_cart_request ''cart-1''),
      DbExecute (InsertOrder
        (PDict [(''rye_order_id'', PNone),
                (''rye_cart_id'', PStr ''cart-1''),
                (''user_identifier'', PStr ''a@example.org''),
                (''status'', PStr ''CREATED''),
                (''total_amount_value'', PFloat (Finite 15)),
                (''total_amount_currency'', PStr ''USD''),
                (''items_snapshot'', PList example_items)]))]
   \<and> py_get (money 1000 []) ''currency'' = Inr (PStr [])
   \<and> PStr [] \<noteq> PNone"
proof -
  let ?cost = "PDict [(''subtotal'', money 1000 []), (''shipping'', money 500 ''USD''),
                      (''tax'', money 0 ''USD'')]"
  let ?cart = "example_cart (money 1000 []) (money 500 ''USD'') (money 0 ''USD'')"
  let ?w = "example_world (get_cart_response ?cart) (\<lambda>q. db_ok PNone)"
  have ex: "checkout_extract ?w ?cart = Inr (Finite 15, PStr ''USD'', example_items)"
    by (simp add: checkout_extract_def example_cart_cost(1) py_or_def total_value_of_def
        total_currency_of_def cost_raw_def money_field and_then_def round64_numeral
        example_cart_items)
  have env: "\<not> supabase_env_missing full_env"
    by (simp add: supabase_env_missing_def env_unset_def full_env_def)
  have client: "create_client ?w (env_value full_env ''SUPABASE_URL'')
                  (env_value full_env ''SUPABASE_SERVICE_ROLE_KEY'') = None"
    by (simp add: example_world_def)
  have email: "py_get (PDict [(''email'', PStr ''a@example.org'')]) ''email'' = Inr (PStr ''a@example.org'')"
    by (simp add: py_get_def)
  show ?thesis
    unfolding checkout_amazon_cart_inserts
      [OF env example_cart_fetched example_cart_cost(2,3) ex client email refl]
    by (simp add: order_data_of_def money_def py_get_def)
qed

text \<open>
  The row that the checkout inserts, in terms of what the accessors of the cost object
  return: the total is the float sum of the three raw values divided by 100, the
  currency is the first truthy one of the three (the tax's when none is truthy), and for
  integer amounts below \<open>2\<^sup>5\<^sup>1\<close> in magnitude the total is the double nearest to the
  exact quotient.
\<close>

lemma checkout_total_general:
  assumes "\<not> supabase_env_missing env"
    and "get_rye_cart_details w env cart_id = (fetch_calls, cart_details)"
    and "is_dict cart_details" and "\<not> is_failure cart_details"
    and "create_client w (env_value env ''SUPABASE_URL'') (env_value env ''SUPABASE_SERVICE_ROLE_KEY'')
           = None"
    and "py_get buyer_info ''email'' = Inr email"
    and "py_get cart_details ''cost'' = Inr cost"
    and "cost_info = py_or cost (PDict [])"
    and "cost_field cost_info ''subtotal'' ''value'' = Inr subtotal_value"
    and "cost_field cost_info ''shipping'' ''value'' = Inr shipping_value"
    and "cost_field cost_info ''tax'' ''value'' = Inr tax_value"
    and "py_float w (py_or subtotal_value (PInt 0)) = Inr subtotal_raw"
    and "py_float w (py_or shipping_value (PInt 0)) = Inr shipping_raw"
    and "py_float w (py_or tax_value (PInt 0)) = Inr tax_raw"
    and "cost_field cost_info ''subtotal'' ''currency'' = Inr subtotal_currency"
    and "cost_field cost_info ''shipping'' ''currency'' = Inr shipping_currency"
    and "cost_field cost_info ''tax'' ''currency'' = Inr tax_currency"
    and "items_snapshot_of cart_details = Inr items_snapshot"
    and "total_value = fdiv_finite (fadd (fadd subtotal_raw shipping_raw) tax_raw) 100"
    and "total_currency = (if truthy subtotal_currency then subtotal_currency
                           else if truthy shipping_currency then shipping_currency
                           else tax_currency)"
  shows "fst (checkout_amazon_cart w env cart_id buyer_info) =
           fetch_calls @ [DbExecute (InsertOrder
              (PDict [(''rye_order_id'', PNone),
                      (''rye_cart_id'', PStr cart_id),
                      (''user_identifier'', email),
                      (''status'', PStr ''CREATED''),
                      (''total_amount_value'', PFloat total_value),
                      (''total_amount_currency'', total_currency),
                      (''items_snapshot'', PList items_snapshot)]))]
       \<and> (py_or subtotal_value (PInt 0) = PInt s \<and> \<bar>s\<bar> < 2 ^ 51
          \<and> py_or shipping_value (PInt 0) = PInt h \<and> \<bar>h\<bar> < 2 ^ 51
          \<and> py_or tax_value (PInt 0) = PInt t \<and> \<bar>t\<bar> < 2 ^ 51
          \<longrightarrow> total_value = round64 (of_int (s + h + t) / 100))"
proof (intro conjI impI)
  have ex: "checkout_extract w cart_details = Inr (total_value, total_currency, items_snapshot)"
    unfolding assms(19,20) using assms(7-18) by (rule checkout_extract_eq)
  show "fst (checkout_amazon_cart w env cart_id buyer_info) =
           fetch_calls @ [DbExecute (InsertOrder
              (PDict [(''rye_order_id'', PNone),
                      (''rye_cart_id'', PStr cart_id),
                      (''user_identifier'', email),
                      (''status'', PStr ''CREATED''),
                      (''total_amount_value'', PFloat total_value),
                      (''total_amount_currency'', total_currency),
                      (''items_snapshot'', PList items_snapshot)]))]"
    unfolding checkout_amazon_cart_inserts [OF assms(1-4) ex assms(5,6) refl]
    by (simp add: order_data_of_def)
next
  assume i: "py_or subtotal_value (PInt 0) = PInt s \<and> \<bar>s\<bar> < 2 ^ 51
          \<and> py_or shipping_value (PInt 0) = PInt h \<and> \<bar>h\<bar> < 2 ^ 51
          \<and> py_or tax_value (PInt 0) = PInt t \<and> \<bar>t\<bar> < 2 ^ 51"
  then have "\<bar>s\<bar> < 2251799813685248" "\<bar>h\<bar> < 2251799813685248" "\<bar>t\<bar> < 2251799813685248"
    by simp_all
  then have b: "\<bar>s\<bar> < 2 ^ 53" "\<bar>h\<bar> < 2 ^ 53" "\<bar>t\<bar> < 2 ^ 53" "\<bar>s + h\<bar> < 2 ^ 53" "\<bar>s + h + t\<bar> < 2 ^ 53"
    by simp_all
  have "subtotal_raw = Finite (of_int s)" "shipping_raw = Finite (of_int h)"
    "tax_raw = Finite (of_int t)"
    using assms(12-14) i py_float_int [OF b(1), of w] py_float_int [OF b(2), of w]
      py_float_int [OF b(3), of w]
    by simp_all
  then show "total_value = round64 (of_int (s + h + t) / 100)"
    unfolding assms(19) using fadd_int [OF b(4)] fadd_int [OF b(5)] by simp
qed

text \<open>
  Claim C10.  The checkout does not check that the buyer information has an email.  For
  a buyer dictionary without the key \<^verbatim>\<open>email\<close>, once the cart is fetched and its cost
  and items are extracted, the tool inserts an order row whose \<^verbatim>\<open>user_identifier\<close> and
  \<^verbatim>\<open>rye_order_id\<close> are null and whose status is \<^verbatim>\<open>CREATED\<close>, and it returns
  success when the datastore reports no error.
\<close>

theorem checkout_without_email_inserts_order:
  assumes "\<not> supabase_env_missing env"
    and "get_rye_cart_details w env cart_id = (fetch_calls, cart_details)"
    and "is_dict cart_details" and "\<not> is_failure cart_details"
    and "checkout_extract w cart_details = Inr (total_value, total_currency, items_snapshot)"
    and "create_client w (env_value env ''SUPABASE_URL'') (env_value env ''SUPABASE_SERVICE_ROLE_KEY'')
           = None"
    and "map_of buyer_fields ''email'' = None"
    and "order_data = PDict [(''rye_order_id'', PNone),
                             (''rye_cart_id'', PStr cart_id),
                             (''user_identifier'', PNone),
                             (''status'', PStr ''CREATED''),
                             (''total_amount_value'', PFloat total_value),
                             (''total_amount_currency'', total_currency),
                             (''items_snapshot'', PList items_snapshot)]"
  shows "fst (checkout_amazon_cart w env cart_id (PDict buyer_fields))
           = fetch_calls @ [DbExecute (InsertOrder order_data)]
       \<and> (db_execute w (InsertOrder order_data) = ExecuteReturns resp \<and> db_error resp = None
          \<longrightarrow> snd (checkout_amazon_cart w env cart_id (PDict buyer_fields))
                = Inr (PDict [(''status'', PStr ''success''),
                              (''order_data'', order_data),
                              (''supabase_insert'', db_data resp)]))"
proof -
  have email: "py_get (PDict buyer_fields) ''email'' = Inr PNone"
    using assms(7) by (simp add: py_get_def)
  have row: "order_data = order_data_of cart_id PNone total_value total_currency items_snapshot"
    using assms(8) by (simp add: order_data_of_def)
  show ?thesis
    unfolding checkout_amazon_cart_inserts [OF assms(1-6) email row]
    by simp
qed

text \<open>The theorem at the example cart and a buyer with a name only.\<close>

theorem checkout_without_email_inserts_order_witness:
  "checkout_amazon_cart
     (example_world
        (get_cart_response (example_cart (money 1000 ''USD'') (money 500 ''USD'') (money 0 ''USD'')))
        (\<lambda>q. db_ok (PList [PDict [(''id'', PInt 7)]])))
     full_env ''cart-1'' (PDict [(''name'', PStr ''Ada'')])
   = ([HttpPost rye_graphql_endpoint (rye_headers full_env) (get_cart_request ''cart-1''),
       DbExecute (InsertOrder
         (PDict [(''rye_order_id'', PNone),
                 (''rye_cart_id'', PStr ''cart-1''),
                 (''user_identifier'', PNone),
                 (''status'', PStr ''CREATED''),
                 (''total_amount_value'', PFloat (Finite 15)),
                 (''total_amount_currency'', PStr ''USD''),
                 (''items_snapshot'', PList example_items)]))],
      Inr (PDict [(''status'', PStr ''success''),
                  (''order_data'',
                   PDict [(''rye_order_id'', PNone),
                          (''rye_cart_id'', PStr ''cart-1''),
                          (''user_identifier'', PNone),
                          (''status'', PStr ''CREATED''),
                          (''total_amount_value'', PFloat (Finite 15)),
                          (''total_amount_currency'', PStr ''USD''),
                          (''items_snapshot'', PList example_items)]),
                  (''supabase_insert'', PList [PDict [(''id'', PInt 7)]])]))"
proof -
  let ?cart = "example_cart (money 1000 ''USD'') (money 500 ''USD'') (money 0 ''USD'')"
  let ?w = "example_world (get_cart_response ?cart) (\<lambda>q. db_ok (PList [PDict [(''id'', PInt 7)]]))"
  let ?row = "PDict [(''rye_order_id'', PNone),
                 (''rye_cart_id'', PStr ''cart-1''),
                 (''user_identifier'', PNone),
                 (''status'', PStr ''CREATED''),
                 (''total_amount_value'', PFloat (Finite 15)),
                 (''total_amount_currency'', PStr ''USD''),
                 (''items_snapshot'', PList example_items)]"
  have ex: "checkout_extract ?w ?cart = Inr (Finite 15, PStr ''USD'', example_items)"
    by (simp add: checkout_extract_def example_cart_cost(1) py_or_def total_value_of_def
        total_currency_of_def cost_raw_def money_field and_then_def round64_numeral
        example_cart_items)
  have env: "\<not> supabase_env_missing full_env"
    by (simp add: supabase_env_missing_def env_unset_def full_env_def)
  have client: "create_client ?w (env_value full_env ''SUPABASE_URL'')
                  (env_value full_env ''SUPABASE_SERVICE_ROLE_KEY'') = None"
    by (simp add: example_world_def)
  have noemail: "map_of [(''name'', PStr ''Ada'')] ''email'' = None"
    by simp
  have store: "db_execute ?w (InsertOrder ?row)
                 = ExecuteReturns \<lparr>db_error = None, db_data = PList [PDict [(''id'', PInt 7)]]\<rparr>
               \<and> db_error \<lparr>db_error = None, db_data = PList [PDict [(''id'', PInt 7)]]\<rparr> = None"
    by (simp add: example_world_def db_ok_def)
  from checkout_without_email_inserts_order
         [OF env example_cart_fetched example_cart_cost(2,3) ex client noemail refl,
          where resp = "\<lparr>db_error = None, db_data = PList [PDict [(''id'', PInt 7)]]\<rparr>"]
       store
  show ?thesis by (simp add: prod_eq_iff)
qed

subsection \<open>The order total and its currency\<close>

lemma cost_field_of_component:
  assumes "component_amount (map_of cost_fields k) = Some n"
  shows "cost_field (PDict cost_fields) k field =
           Inr (case map_of cost_fields k of
                  Some (PDict entries) \<Rightarrow> (case map_of entries field of None \<Rightarrow> PNone | Some x \<Rightarrow> x)
                | other \<Rightarrow> PNone)"
  using assms
  by (auto simp: cost_field_def py_get_def py_or_def and_then_def
      split: option.splits pyval.splits)

lemma component_amount_value:
  assumes "component_amount (map_of cost_fields k) = Some n"
  shows "py_or (case map_of cost_fields k of
                  Some (PDict entries) \<Rightarrow> (case map_of entries ''value'' of None \<Rightarrow> PNone | Some x \<Rightarrow> x)
                | other \<Rightarrow> PNone) (PInt 0) = PInt n"
proof (cases "map_of cost_fields k")
  case None
  then show ?thesis using assms by (simp add: py_or_def)
next
  case (Some component)
  show ?thesis
  proof (cases component)
    case (PDict entries)
    show ?thesis
    proof (cases "map_of entries ''value''")
      case None
      then show ?thesis using assms Some PDict by (simp add: py_or_def)
    next
      case (Some x)
      then show ?thesis
        using assms \<open>map_of cost_fields k = Some component\<close> PDict
        by (cases x) (simp_all add: py_or_def)
    qed
  qed (use assms Some in \<open>simp_all add: py_or_def\<close>)
qed

lemma cost_field_component:
  assumes "component_amount (map_of cost_fields k) = Some n"
  shows "\<exists>v. cost_field (PDict cost_fields) k ''value'' = Inr v \<and> py_or v (PInt 0) = PInt n"
    and "cost_field (PDict cost_fields) k ''currency''
           = Inr (component_currency (map_of cost_fields k))"
proof -
  show "\<exists>v. cost_field (PDict cost_fields) k ''value'' = Inr v \<and> py_or v (PInt 0) = PInt n"
    using cost_field_of_component [OF assms, of "''value''"] component_amount_value [OF assms]
    by blast
  show "cost_field (PDict cost_fields) k ''currency''
           = Inr (component_currency (map_of cost_fields k))"
    unfolding cost_field_of_component [OF assms]
    by (auto split: option.splits pyval.splits)
qed

lemma example_cart_costing_fetched:
  "get_rye_cart_details (example_world (get_cart_response (example_cart_costing cost_fields)) store)
     full_env cart_id
     = ([HttpPost rye_graphql_endpoint (rye_headers full_env) (get_cart_request cart_id)],
        example_cart_costing cost_fields)"
  by (simp add: get_rye_cart_details_def example_world_def full_env_def rye_env_missing_def
      env_unset_def ok_response_def post_json_def Let_def get_cart_body_def and_then_def
      py_get_def get_cart_response_def example_cart_costing_def)

lemma example_cart_costing_facts:
  "items_snapshot_of (example_cart_costing cost_fields) = Inr example_items"
  "py_get (example_cart_costing cost_fields) ''cost'' = Inr (PDict cost_fields)"
  "is_dict (example_cart_costing cost_fields)"
  "\<not> is_failure (example_cart_costing cost_fields)"
  by (simp_all add: items_snapshot_of_def example_cart_costing_def example_lines_def
      example_items_def snapshot_line_def and_then_def py_get_def py_or_def money_def Let_def
      is_failure_def)

text \<open>
  Claim C3, as amended. A checkout whose cart was fetched and whose datastore is
  configured inserts one order row. Each of the cost components \<open>subtotal\<close>,
  \<open>shipping\<close> and \<open>tax\<close> is read from the cost object of the cart; a component that is
  absent or null, or whose \<open>value\<close> is absent or null, counts as 0. For integer
  minor-unit amounts below \<open>2\<^sup>5\<^sup>1\<close> in magnitude the stored \<open>total_amount_value\<close> is the
  double nearest to (subtotal + shipping + tax) / 100. The stored
  \<open>total_amount_currency\<close> is the first truthy currency among those of subtotal,
  shipping and tax, in that order, and the tax's currency (null when absent) when none
  is truthy: an empty currency string is skipped, not only a null one.
\<close>

theorem checkout_total_and_currency:
  assumes "\<not> supabase_env_missing env"
    and "get_rye_cart_details w env cart_id = (fetch_calls, cart_details)"
    and "is_dict cart_details" and "\<not> is_failure cart_details"
    and "create_client w (env_value env ''SUPABASE_URL'') (env_value env ''SUPABASE_SERVICE_ROLE_KEY'')
           = None"
    and "py_get buyer_info ''email'' = Inr email"
    and "py_get cart_details ''cost'' = Inr (PDict cost_fields)"
    and "component_amount (map_of cost_fields ''subtotal'') = Some s" and "\<bar>s\<bar> < 2 ^ 51"
    and "component_amount (map_of cost_fields ''shipping'') = Some h" and "\<bar>h\<bar> < 2 ^ 51"
    and "component_amount (map_of cost_fields ''tax'') = Some t" and "\<bar>t\<bar> < 2 ^ 51"
    and "subtotal_currency = component_currency (map_of cost_fields ''subtotal'')"
    and "shipping_currency = component_currency (map_of cost_fields ''shipping'')"
    and "tax_currency = component_currency (map_of cost_fields ''tax'')"
    and "items_snapshot_of cart_details = Inr items_snapshot"
  shows "fst (checkout_amazon_cart w env cart_id buyer_info) =
           fetch_calls @ [DbExecute (InsertOrder
              (PDict [(''rye_order_id'', PNone),
                      (''rye_cart_id'', PStr cart_id),
                      (''user_identifier'', email),
                      (''status'', PStr ''CREATED''),
                      (''total_amount_value'', PFloat (round64 (of_int (s + h + t) / 100))),
                      (''total_amount_currency'',
                       if truthy subtotal_currency then subtotal_currency
                       else if truthy shipping_currency then shipping_currency
                       else tax_currency),
                      (''items_snapshot'', PList items_snapshot)]))]"
proof -
  let ?info = "PDict cost_fields"
  have info: "?info = py_or ?info (PDict [])"
    by (simp add: py_or_def)
  obtain vs where vs: "cost_field ?info ''subtotal'' ''value'' = Inr vs" "py_or vs (PInt 0) = PInt s"
    using cost_field_component(1) [OF assms(8)] by blast
  obtain vh where vh: "cost_field ?info ''shipping'' ''value'' = Inr vh" "py_or vh (PInt 0) = PInt h"
    using cost_field_component(1) [OF assms(10)] by blast
  obtain vt where vt: "cost_field ?info ''tax'' ''value'' = Inr vt" "py_or vt (PInt 0) = PInt t"
    using cost_field_component(1) [OF assms(12)] by blast
  have b: "\<bar>s\<bar> < 2 ^ 53" "\<bar>h\<bar> < 2 ^ 53" "\<bar>t\<bar> < 2 ^ 53"
    using assms(9,11,13) by simp_all
  have fs: "py_float w (py_or vs (PInt 0)) = Inr (Finite (of_int s))"
    and fh: "py_float w (py_or vh (PInt 0)) = Inr (Finite (of_int h))"
    and ft: "py_float w (py_or vt (PInt 0)) = Inr (Finite (of_int t))"
    unfolding vs(2) vh(2) vt(2) using b by (simp_all only: py_float_int)
  note cur = cost_field_component(2) [OF assms(8), folded assms(14)]
    cost_field_component(2) [OF assms(10), folded assms(15)]
    cost_field_component(2) [OF assms(12), folded assms(16)]
  note general = checkout_total_general
    [OF assms(1-6) assms(7) info vs(1) vh(1) vt(1) fs fh ft cur assms(17) refl refl,
     where s = s and h = h and t = t]
  have "fdiv_finite (fadd (fadd (Finite (of_int s)) (Finite (of_int h))) (Finite (of_int t))) 100
          = round64 (of_int (s + h + t) / 100)"
    using general vs(2) vh(2) vt(2) assms(9,11,13) by blast
  then show ?thesis
    using general by simp
qed

theorem checkout_total_and_currency_witness:
  "fst (checkout_amazon_cart
          (example_world
             (get_cart_response (example_cart_costing
                [(''subtotal'', money 1000 ''USD''), (''shipping'', money 500 ''USD''),
                 (''tax'', money 0 ''USD'')]))
             (\<lambda>q. db_ok PNone))
          full_env ''cart-1'' (PDict [(''email'', PStr ''a@example.org'')]))
   = [HttpPost rye_graphql_endpoint (rye_headers full_env) (get_cart_request ''cart-1''),
      DbExecute (InsertOrder
        (PDict [(''rye_order_id'', PNone),
                (''rye_cart_id'', PStr ''cart-1''),
                (''user_identifier'', PStr ''a@example.org''),
                (''status'', PStr ''CREATED''),
                (''total_amount_value'', PFloat (Finite 15)),
                (''total_amount_currency'', PStr ''USD''),
                (''items_snapshot'', PList example_items)]))]
   \<and> fst (checkout_amazon_cart
          (example_world
             (get_cart_response (example_cart_costing
                [(''subtotal'', money 1000 ''USD''), (''shipping'', PNone)]))
             (\<lambda>q. db_ok PNone))
          full_env ''cart-1'' (PDict [(''email'', PStr ''a@example.org'')]))
   = [HttpPost rye_graphql_endpoint (rye_headers full_env) (get_cart_request ''cart-1''),
      DbExecute (InsertOrder
        (PDict [(''rye_order_id'', PNone),
                (''rye_cart_id'', PStr ''cart-1''),
                (''user_identifier'', PStr ''a@example.org''),
                (''status'', PStr ''CREATED''),
                (''total_amount_value'', PFloat (Finite 10)),
                (''total_amount_currency'', PStr ''USD''),
                (''items_snapshot'', PList example_items)]))]"
proof -
  let ?all = "[(''subtotal'', money 1000 ''USD''), (''shipping'', money 500 ''USD''),
               (''tax'', money 0 ''USD'')]"
  let ?some = "[(''subtotal'', money 1000 ''USD''), (''shipping'', PNone)]"
  have env: "\<not> supabase_env_missing full_env"
    by (simp add: supabase_env_missing_def env_unset_def full_env_def)
  have client: "\<And>body. create_client (example_world body (\<lambda>q. db_ok PNone))
                  (env_value full_env ''SUPABASE_URL'')
                  (env_value full_env ''SUPABASE_SERVICE_ROLE_KEY'') = None"
    by (simp add: example_world_def)
  have email: "py_get (PDict [(''email'', PStr ''a@example.org'')]) ''email'' = Inr (PStr ''a@example.org'')"
    by (simp add: py_get_def)
  have a1: "component_amount (map_of ?all ''subtotal'') = Some 1000"
    and a2: "component_amount (map_of ?all ''shipping'') = Some 500"
    and a3: "component_amount (map_of ?all ''tax'') = Some 0"
    and b1: "component_amount (map_of ?some ''subtotal'') = Some 1000"
    and b2: "component_amount (map_of ?some ''shipping'') = Some 0"
    and b3: "component_amount (map_of ?some ''tax'') = Some 0"
    by (simp_all add: money_def)
  have small: "\<bar>1000::int\<bar> < 2 ^ 51" "\<bar>500::int\<bar> < 2 ^ 51" "\<bar>0::int\<bar> < 2 ^ 51"
    by simp_all
  from checkout_total_and_currency
         [OF env example_cart_costing_fetched example_cart_costing_facts(3,4) client email
             example_cart_costing_facts(2) a1 small(1) a2 small(2) a3 small(3) refl refl refl
             example_cart_costing_facts(1)]
  have first: "fst (checkout_amazon_cart
          (example_world (get_cart_response (example_cart_costing ?all)) (\<lambda>q. db_ok PNone))
          full_env ''cart-1'' (PDict [(''email'', PStr ''a@example.org'')]))
   = [HttpPost rye_graphql_endpoint (rye_headers full_env) (get_cart_request ''cart-1''),
      DbExecute (InsertOrder
        (PDict [(''rye_order_id'', PNone),
                (''rye_cart_id'', PStr ''cart-1''),
                (''user_identifier'', PStr ''a@example.org''),
                (''status'', PStr ''CREATED''),
                (''total_amount_value'', PFloat (Finite 15)),
                (''total_amount_currency'', PStr ''USD''),
                (''items_snapshot'', PList example_items)]))]"
    by (simp add: money_def round64_numeral)
  from checkout_total_and_currency
         [OF env example_cart_costing_fetched example_cart_costing_facts(3,4) client email
             example_cart_costing_facts(2) b1 small(1) b2 small(3) b3 small(3) refl refl refl
             example_cart_costing_facts(1)]
  have second: "fst (checkout_amazon_cart
          (example_world (get_cart_response (example_cart_costing ?some)) (\<lambda>q. db_ok PNone))
          full_env ''cart-1'' (PDict [(''email'', PStr ''a@example.org'')]))
   = [HttpPost rye_graphql_endpoint (rye_headers full_env) (get_cart_request ''cart-1''),
      DbExecute (InsertOrder
        (PDict [(''rye_order_id'', PNone),
                (''rye_cart_id'', PStr ''cart-1''),
                (''user_identifier'', PStr ''a@example.org''),
                (''status'', PStr ''CREATED''),
                (''total_amount_value'', PFloat (Finite 10)),
                (''total_amount_currency'', PStr ''USD''),
                (''items_snapshot'', PList example_items)]))]"
    by (simp add: money_def round64_numeral)
  from first second show ?thesis by (rule conjI)
qed

section \<open>Properties of the spending status\<close>

















end
